theory Spec2Isabelle
  imports Main
begin

section \<open>JavaScript values and objects\<close>

text \<open>
  The service works on plain JavaScript objects: it reads properties, spreads one object
  into another (\<^verbatim>\<open>{ a, ...o }\<close>) and drops properties with lodash's \<^verbatim>\<open>omit\<close>.
  An object is a finite map from property names to values; a missing property reads as
  \<^verbatim>\<open>undefined\<close>.

  JavaScript has one number type, the IEEE double. \<open>Num\<close> holds the integer-valued
  numbers that the storage assigns and compares (ids, which a double represents exactly);
  \<open>Dbl\<close> holds every other number (quantities, rates, amounts) over a carrier \<open>'n\<close> that
  is a parameter of the whole development. Of the carrier only a zero and an addition are
  used, and nothing is assumed about them: the addition need not be associative,
  commutative or exact, so whatever is proved below holds for doubles with their rounding.
  The example data instantiate the carrier with \<open>int\<close>, on values small enough for double
  arithmetic to be exact.
\<close>

datatype 'n val = Undefined | Num int | Dbl 'n | Str string

type_synonym 'n obj = "string \<rightharpoonup> 'n val"

definition jsget :: "'n obj \<Rightarrow> string \<Rightarrow> 'n val" where
  "jsget ob k = (case ob k of None \<Rightarrow> Undefined | Some v \<Rightarrow> v)"

text \<open>
  JavaScript truthiness, as \<^verbatim>\<open>if (x)\<close> and \<^verbatim>\<open>x || y\<close> read a value: \<^verbatim>\<open>undefined\<close>, zero
  and the empty string are falsy. The service tests only ids and stored flags this way.
\<close>

definition truthy :: "('n::zero) val \<Rightarrow> bool" where
  "truthy v =
     (case v of Undefined \<Rightarrow> False | Num n \<Rightarrow> n \<noteq> 0 | Dbl d \<Rightarrow> d \<noteq> 0 | Str s \<Rightarrow> s \<noteq> [])"

text \<open>lodash \<^verbatim>\<open>omit(o, keys)\<close>: a copy of the object without the listed properties.\<close>

definition omit :: "'n obj \<Rightarrow> string list \<Rightarrow> 'n obj" where
  "omit ob ks = (\<lambda>k. if k \<in> set ks then None else ob k)"

text \<open>
  The object literal \<^verbatim>\<open>{ ...a, ...b }\<close>: properties of \<open>b\<close> override those of \<open>a\<close>.
  \<^verbatim>\<open>{ k: v, ...b }\<close> is \<open>spread [k \<mapsto> v] b\<close>.
\<close>

definition spread :: "'n obj \<Rightarrow> 'n obj \<Rightarrow> 'n obj" where
  "spread a b = a ++ b"

text \<open>
  lodash \<^verbatim>\<open>sumBy(xs, f)\<close>: 0 for an empty array; otherwise \<^verbatim>\<open>baseSum\<close> starts from the value
  of the first element and adds the value of each further element to the running result,
  from left to right.
\<close>

definition sumBy :: "'a list \<Rightarrow> ('a \<Rightarrow> 'n::{zero,plus}) \<Rightarrow> 'n" where
  "sumBy xs f =
     (case xs of
        [] \<Rightarrow> 0
      | x # ys \<Rightarrow> foldl (\<lambda>result y. result + f y) (f x) ys)"

section \<open>Data model\<close>

text \<open>
  \<^verbatim>\<open>ISaleEstimateDTO\<close>: the fields the service reads by name are typed fields; \<open>other\<close>
  holds every other own property of the request object (dates, notes, and whatever else
  the client sent), since the spread \<^verbatim>\<open>...estimateDTO\<close> copies all of them.
\<close>

record 'n estimate_dto =
  estimateNumber :: string
  customerId :: int
  entries :: "'n obj list"
  other :: "'n obj"

text \<open>
  An estimate object together with its related objects: what the service hands to the
  object mapper's graph write, and what a fetch with \<^verbatim>\<open>withGraphFetched\<close> returns.
\<close>

record 'n graph =
  props :: "'n obj"
  children :: "'n obj list"
  customer :: "'n obj option"

text \<open>The storage partition of one tenant: its tables and the id sequences of two of them.\<close>

record 'n store =
  sale_estimates :: "'n obj list"
  items_entries :: "'n obj list"
  items :: "'n obj list"
  customers :: "'n obj list"
  next_estimate_id :: int
  next_entry_id :: int

datatype error_code =
  SALE_ESTIMATE_NOT_FOUND
  | CUSTOMER_NOT_FOUND
  | SALE_ESTIMATE_NUMBER_EXISTANCE
  | ITEMS_IDS_NOT_EXISTS
  | ENTRIES_IDS_NOT_FOUND
  | NOT_SELLABLE_ITEMS

text \<open>
  \<^verbatim>\<open>ServiceError\<close> carries a code and the offending ids; \<open>StorageError\<close> is a rejection
  of the storage layer itself, which the service lets through unwrapped.
\<close>

datatype 'n error = ServiceError error_code "'n val list" | StorageError

datatype event_name = OnCreated | OnEdited | OnDeleted

text \<open>The payload objects of the source's \<^verbatim>\<open>dispatch\<close> calls, field by field.\<close>

datatype 'n payload =
  EditedPayload int int "'n graph" "'n obj"
  | DeletedPayload int int "'n obj"

datatype 'n event = Event event_name "'n payload option"

text \<open>
  The whole system: \<^verbatim>\<open>tenancy.models(tenantId)\<close> resolves a tenant id to its partition,
  and \<open>dispatched\<close> is the log of events handed to the dispatcher, oldest first.
\<close>

record 'n state =
  tenants :: "int \<Rightarrow> 'n store"
  dispatched :: "'n event list"

definition dto_props :: "'n estimate_dto \<Rightarrow> 'n obj" where
  "dto_props dto =
     (omit (other dto) [''entries''])
       (''estimateNumber'' \<mapsto> Str (estimateNumber dto), ''customerId'' \<mapsto> Num (customerId dto))"


section \<open>Collaborators that the service calls\<close>

text \<open>
  \<^verbatim>\<open>ItemEntry.calcAmount\<close> and the date formatter behind \<^verbatim>\<open>formatDateFields\<close> are taken
  as parameters: every property below holds for whatever they compute. An amount is a
  number of the carrier.
\<close>

record 'n deps =
  calcAmount :: "'n obj \<Rightarrow> 'n"
  formatDate :: "'n val \<Rightarrow> 'n val"

text \<open>
  Modelled from the spec: \<^verbatim>\<open>formatDateFields\<close> of \<^verbatim>\<open>utils\<close> is missing; the spec has the
  date fields "normalized to a canonical date representation". The listed properties are
  formatted where present, every other property is copied unchanged.
\<close>

definition formatDateFields :: "('n val \<Rightarrow> 'n val) \<Rightarrow> 'n obj \<Rightarrow> string list \<Rightarrow> 'n obj" where
  "formatDateFields fmt ob ks = (\<lambda>k. if k \<in> set ks then map_option fmt (ob k) else ob k)"

text \<open>Modelled from the spec: \<^verbatim>\<open>ItemEntry.calcAmount\<close> is missing; an entry "carries
  quantity/rate fields from which its amount is computed". Used for concrete runs only.\<close>

definition quantity_times_rate :: "('n::{zero,times}) obj \<Rightarrow> 'n" where
  "quantity_times_rate e =
     (case (jsget e ''quantity'', jsget e ''rate'') of (Dbl q, Dbl r) \<Rightarrow> q * r | _ \<Rightarrow> 0)"

subsection \<open>The object mapper\<close>

text \<open>\<^verbatim>\<open>Model.query().findById(id)\<close>: the row with that id, if any.\<close>

definition findById :: "'n obj list \<Rightarrow> int \<Rightarrow> 'n obj option" where
  "findById rows i = find (\<lambda>r. jsget r ''id'' = Num i) rows"

text \<open>
  The \<^verbatim>\<open>entries\<close> relation of an estimate: an entry belongs to a document through the
  pair (reference\_id, reference\_type).
\<close>

definition is_entry_of :: "'n val \<Rightarrow> 'n obj \<Rightarrow> bool" where
  "is_entry_of did r =
     (jsget r ''reference_id'' = did \<and> jsget r ''reference_type'' = Str ''SaleEstimate'')"

text \<open>
  The children of a graph write, in order. An entry without an id is inserted under the
  next id of the sequence with its back-reference set to the parent; an entry with an id
  must be a current child of the parent and is patched; any other id makes the write fail.
\<close>

fun upsert_children :: "'n val \<Rightarrow> 'n obj list \<Rightarrow> int \<Rightarrow> 'n obj list \<Rightarrow> ('n obj list \<times> int) option" where
  "upsert_children did cur n [] = Some ([], n)"
| "upsert_children did cur n (e # es) =
     (if jsget e ''id'' = Undefined then
        (case upsert_children did cur (n + 1) es of
           None \<Rightarrow> None
         | Some (rows, m) \<Rightarrow> Some (e(''id'' \<mapsto> Num n, ''reference_id'' \<mapsto> did) # rows, m))
      else
        (case find (\<lambda>r. jsget r ''id'' = jsget e ''id'') cur of
           None \<Rightarrow> None
         | Some r \<Rightarrow>
             (case upsert_children did cur n es of
                None \<Rightarrow> None
              | Some (rows, m) \<Rightarrow> Some (spread r e # rows, m))))"

text \<open>
  Modelled from the spec: the object mapper's \<^verbatim>\<open>upsertGraphAndFetch\<close> and the estimate
  model's relations are missing. The spec has create "persist Document and its Entries
  together as one graph write" and edit persist "a full graph replace (old Entries not
  present in the new DTO are deleted; others are updated or inserted) in a single logical
  write", the document's id being auto-assigned. A graph without an id is inserted under
  the next id; a graph with an id patches the existing row and replaces its entries.
\<close>

definition upsertGraphAndFetch :: "'n store \<Rightarrow> 'n graph \<Rightarrow> 'n error + ('n graph \<times> 'n store)" where
  "upsertGraphAndFetch st g =
     (if jsget (props g) ''id'' = Undefined then
        (let did = Num (next_estimate_id st) in
         case upsert_children did [] (next_entry_id st) (children g) of
           None \<Rightarrow> Inl StorageError
         | Some (rows, m) \<Rightarrow>
             (let doc = (props g)(''id'' \<mapsto> did) in
              Inr (\<lparr>props = doc, children = rows, customer = None\<rparr>,
                   st\<lparr>sale_estimates := sale_estimates st @ [doc],
                      items_entries := items_entries st @ rows,
                      next_estimate_id := next_estimate_id st + 1,
                      next_entry_id := m\<rparr>)))
      else
        (let did = jsget (props g) ''id'' in
         case find (\<lambda>r. jsget r ''id'' = did) (sale_estimates st) of
           None \<Rightarrow> Inl StorageError
         | Some old \<Rightarrow>
             (case upsert_children did (filter (is_entry_of did) (items_entries st))
                     (next_entry_id st) (children g) of
                None \<Rightarrow> Inl StorageError
              | Some (rows, m) \<Rightarrow>
                  (let doc = spread old (props g) in
                   Inr (\<lparr>props = doc, children = rows, customer = None\<rparr>,
                        st\<lparr>sale_estimates :=
                             map (\<lambda>r. if jsget r ''id'' = did then doc else r) (sale_estimates st),
                           items_entries :=
                             filter (\<lambda>r. \<not> is_entry_of did r) (items_entries st) @ rows,
                           next_entry_id := m\<rparr>)))))"

text \<open>\<^verbatim>\<open>withGraphFetched('entries')\<close> and \<^verbatim>\<open>withGraphFetched('customer')\<close> on a fetched row.\<close>

definition fetch_graph :: "'n store \<Rightarrow> 'n obj \<Rightarrow> 'n graph" where
  "fetch_graph st r =
     \<lparr>props = r,
      children = filter (is_entry_of (jsget r ''id'')) (items_entries st),
      customer = find (\<lambda>c. jsget c ''id'' = jsget r ''customerId'') (customers st)\<rparr>"

subsection \<open>Validators of other services\<close>

text \<open>
  Modelled from the spec: \<^verbatim>\<open>CustomersService.getCustomer\<close> is missing; the spec has it "check
  counterparty exists (fails with CounterpartyNotFoundError)".
\<close>

definition getCustomer :: "'n store \<Rightarrow> int \<Rightarrow> 'n error + 'n obj" where
  "getCustomer st cid =
     (case findById (customers st) cid of
        None \<Rightarrow> Inl (ServiceError CUSTOMER_NOT_FOUND [])
      | Some c \<Rightarrow> Inr c)"

text \<open>
  Modelled from the spec: \<^verbatim>\<open>ItemsEntriesService.validateItemsIdsExistance\<close> is missing;
  the spec has it "check every entry's item id exists (fails with ItemsNotFoundError listing
  missing ids)", the code being \<^verbatim>\<open>ITEMS_IDS_NOT_EXISTS\<close>.
\<close>

definition validateItemsIdsExistance :: "'n store \<Rightarrow> 'n obj list \<Rightarrow> 'n error + unit" where
  "validateItemsIdsExistance st itemEntries =
     (let itemsIds = map (\<lambda>e. jsget e ''itemId'') itemEntries;
          foundIds = map (\<lambda>r. jsget r ''id'') (items st);
          notFound = filter (\<lambda>i. i \<notin> set foundIds) itemsIds
      in if notFound = [] then Inr () else Inl (ServiceError ITEMS_IDS_NOT_EXISTS notFound))"

text \<open>
  Modelled from the spec: \<^verbatim>\<open>ItemsEntriesService.validateNonSellableEntriesItems\<close> is
  missing; the spec has it "check every entry's item is eligible for this document type
  (fails with NonEligibleItemError)".
\<close>

definition validateNonSellableEntriesItems :: "('n::zero) store \<Rightarrow> 'n obj list \<Rightarrow> 'n error + unit" where
  "validateNonSellableEntriesItems st itemEntries =
     (let itemsIds = map (\<lambda>e. jsget e ''itemId'') itemEntries;
          nonSellable =
            filter (\<lambda>i. list_ex (\<lambda>r. jsget r ''id'' = i \<and> \<not> truthy (jsget r ''sellable'')) (items st))
              itemsIds
      in if nonSellable = [] then Inr () else Inl (ServiceError NOT_SELLABLE_ITEMS nonSellable))"

text \<open>
  Modelled from the spec: \<^verbatim>\<open>ItemsEntriesService.validateEntriesIdsExistance\<close> is missing;
  the spec has it "entry-existence validation scoped to entries already belonging to this
  Document for any entry ids the DTO claims to update". The reference id and the reference
  type are the caller's arguments.
\<close>

definition validateEntriesIdsExistance :: "'n store \<Rightarrow> int \<Rightarrow> string \<Rightarrow> 'n obj list \<Rightarrow> 'n error + unit" where
  "validateEntriesIdsExistance st referenceId referenceType itemEntries =
     (let entriesIds = map (\<lambda>e. jsget e ''id'') (filter (\<lambda>e. jsget e ''id'' \<noteq> Undefined) itemEntries);
          storedEntries =
            filter (\<lambda>r. jsget r ''reference_id'' = Num referenceId
                       \<and> jsget r ''reference_type'' = Str referenceType) (items_entries st);
          storedIds = map (\<lambda>r. jsget r ''id'') storedEntries;
          notFound = filter (\<lambda>i. i \<notin> set storedIds) entriesIds
      in if notFound = [] then Inr () else Inl (ServiceError ENTRIES_IDS_NOT_FOUND notFound))"

section \<open>SaleEstimateService\<close>

definition getSaleEstimateOrThrowError :: "'n store \<Rightarrow> int \<Rightarrow> 'n error + 'n obj" where
  "getSaleEstimateOrThrowError st saleEstimateId =
     (case findById (sale_estimates st) saleEstimateId of
        None \<Rightarrow> Inl (ServiceError SALE_ESTIMATE_NOT_FOUND [])
      | Some foundSaleEstimate \<Rightarrow> Inr foundSaleEstimate)"

text \<open>
  The query is built in two steps, as in the source: the rows with the estimate number,
  then \<^verbatim>\<open>whereNot('id', notEstimateId)\<close> only when \<^verbatim>\<open>notEstimateId\<close> is truthy. The column
  \<^verbatim>\<open>estimate_number\<close> holds the property \<^verbatim>\<open>estimateNumber\<close>.
\<close>

definition validateEstimateNumberExistance ::
  "('n::zero) store \<Rightarrow> string \<Rightarrow> int option \<Rightarrow> 'n error + unit" where
  "validateEstimateNumberExistance st estimate_number notEstimateId =
     (let q = filter (\<lambda>r. jsget r ''estimateNumber'' = Str estimate_number) (sale_estimates st);
          q' = (case notEstimateId of
                  None \<Rightarrow> q
                | Some i \<Rightarrow>
                    if truthy (Num i :: 'n val) then filter (\<lambda>r. jsget r ''id'' \<noteq> Num i) q else q)
      in case q' of
           [] \<Rightarrow> Inr ()
         | foundSaleEstimate # _ \<Rightarrow> Inl (ServiceError SALE_ESTIMATE_NUMBER_EXISTANCE []))"

text \<open>\<^verbatim>\<open>const estimateObj = { amount, ...formatDateFields(estimateDTO, [...]) }\<close>.\<close>

definition estimateObj :: "('n::{zero,plus}) deps \<Rightarrow> 'n estimate_dto \<Rightarrow> 'n graph" where
  "estimateObj D dto =
     \<lparr>props = spread [''amount'' \<mapsto> Dbl (sumBy (entries dto) (calcAmount D))]
                (formatDateFields (formatDate D) (dto_props dto) [''estimate_date'', ''expiration_date'']),
      children = entries dto,
      customer = None\<rparr>"

text \<open>The object that \<^verbatim>\<open>createEstimate\<close> hands to \<^verbatim>\<open>upsertGraphAndFetch\<close>.\<close>

definition create_graph :: "'n graph \<Rightarrow> 'n graph" where
  "create_graph eo =
     \<lparr>props = omit (props eo) [''entries''],
      children =
        map (\<lambda>entry. spread [''reference_type'' \<mapsto> Str ''SaleEstimate'']
                       (omit entry [''total'', ''amount'', ''id'']))
          (children eo),
      customer = None\<rparr>"

text \<open>The object that \<^verbatim>\<open>editEstimate\<close> hands to \<^verbatim>\<open>upsertGraphAndFetch\<close>.\<close>

definition edit_graph :: "int \<Rightarrow> 'n graph \<Rightarrow> 'n graph" where
  "edit_graph estimateId eo =
     \<lparr>props = spread [''id'' \<mapsto> Num estimateId] (omit (props eo) [''entries'']),
      children =
        map (\<lambda>entry. spread [''reference_type'' \<mapsto> Str ''SaleEstimate'']
                       (omit entry [''total'', ''amount'']))
          (children eo),
      customer = None\<rparr>"

definition set_store :: "'n state \<Rightarrow> int \<Rightarrow> 'n store \<Rightarrow> 'n state" where
  "set_store s tenantId st = s\<lparr>tenants := (tenants s)(tenantId := st)\<rparr>"

definition dispatch :: "'n event \<Rightarrow> 'n state \<Rightarrow> 'n state" where
  "dispatch ev s = s\<lparr>dispatched := dispatched s @ [ev]\<rparr>"

text \<open>
  Every operation returns its outcome together with the state it leaves behind, also when
  it throws: \<open>Inl\<close> is the exception.
\<close>

definition createEstimate ::
  "('n::{zero,plus}) deps \<Rightarrow> int \<Rightarrow> 'n estimate_dto \<Rightarrow> 'n state
     \<Rightarrow> ('n error + 'n graph) \<times> 'n state" where
  "createEstimate D tenantId estimateDTO s =
     (let st = tenants s tenantId;
          eo = estimateObj D estimateDTO
      in case validateEstimateNumberExistance st (estimateNumber estimateDTO) None of
           Inl e \<Rightarrow> (Inl e, s)
         | Inr _ \<Rightarrow>
        (case getCustomer st (customerId estimateDTO) of
           Inl e \<Rightarrow> (Inl e, s)
         | Inr _ \<Rightarrow>
        (case validateItemsIdsExistance st (entries estimateDTO) of
           Inl e \<Rightarrow> (Inl e, s)
         | Inr _ \<Rightarrow>
        (case validateNonSellableEntriesItems st (entries estimateDTO) of
           Inl e \<Rightarrow> (Inl e, s)
         | Inr _ \<Rightarrow>
        (case upsertGraphAndFetch st (create_graph eo) of
           Inl e \<Rightarrow> (Inl e, s)
         | Inr (saleEstimate, st') \<Rightarrow>
             (Inr saleEstimate, dispatch (Event OnCreated None) (set_store s tenantId st')))))))"

definition editEstimate ::
  "('n::{zero,plus}) deps \<Rightarrow> int \<Rightarrow> int \<Rightarrow> 'n estimate_dto \<Rightarrow> 'n state
     \<Rightarrow> ('n error + 'n graph) \<times> 'n state" where
  "editEstimate D tenantId estimateId estimateDTO s =
     (let st = tenants s tenantId
      in case getSaleEstimateOrThrowError st estimateId of
           Inl e \<Rightarrow> (Inl e, s)
         | Inr oldSaleEstimate \<Rightarrow>
        (let eo = estimateObj D estimateDTO
         in case validateEstimateNumberExistance st (estimateNumber estimateDTO) (Some estimateId) of
           Inl e \<Rightarrow> (Inl e, s)
         | Inr _ \<Rightarrow>
        (case getCustomer st (customerId estimateDTO) of
           Inl e \<Rightarrow> (Inl e, s)
         | Inr _ \<Rightarrow>
        (case validateEntriesIdsExistance st estimateId ''SaleEstiamte'' (entries estimateDTO) of
           Inl e \<Rightarrow> (Inl e, s)
         | Inr _ \<Rightarrow>
        (case validateItemsIdsExistance st (entries estimateDTO) of
           Inl e \<Rightarrow> (Inl e, s)
         | Inr _ \<Rightarrow>
        (case validateNonSellableEntriesItems st (entries estimateDTO) of
           Inl e \<Rightarrow> (Inl e, s)
         | Inr _ \<Rightarrow>
        (case upsertGraphAndFetch st (edit_graph estimateId eo) of
           Inl e \<Rightarrow> (Inl e, s)
         | Inr (saleEstimate, st') \<Rightarrow>
             (Inr saleEstimate,
              dispatch (Event OnEdited (Some (EditedPayload tenantId estimateId saleEstimate oldSaleEstimate)))
                (set_store s tenantId st')))))))))"

text \<open>
  \<^verbatim>\<open>deleteEstimate\<close> awaits two storage writes, one after the other. Either may be rejected
  by the storage layer (connectivity, a constraint); \<open>rejects\<close> says which ones are.
\<close>

datatype write_step = DeleteEntries | DeleteDocument

definition deleteEstimate ::
  "(write_step \<Rightarrow> bool) \<Rightarrow> int \<Rightarrow> int \<Rightarrow> 'n state \<Rightarrow> ('n error + unit) \<times> 'n state" where
  "deleteEstimate rejects tenantId estimateId s =
     (let st = tenants s tenantId
      in case getSaleEstimateOrThrowError st estimateId of
           Inl e \<Rightarrow> (Inl e, s)
         | Inr oldSaleEstimate \<Rightarrow>
             if rejects DeleteEntries then (Inl StorageError, s)
             else
               (let st1 = st\<lparr>items_entries :=
                              filter (\<lambda>r. \<not> (jsget r ''reference_id'' = Num estimateId
                                             \<and> jsget r ''reference_type'' = Str ''SaleEstimate''))
                                (items_entries st)\<rparr>
                in if rejects DeleteDocument then (Inl StorageError, set_store s tenantId st1)
                   else
                     (let st2 = st1\<lparr>sale_estimates :=
                                     filter (\<lambda>r. jsget r ''id'' \<noteq> Num estimateId) (sale_estimates st1)\<rparr>
                      in (Inr (),
                          dispatch (Event OnDeleted (Some (DeletedPayload tenantId estimateId oldSaleEstimate)))
                            (set_store s tenantId st2)))))"

definition getEstimate :: "int \<Rightarrow> int \<Rightarrow> 'n state \<Rightarrow> 'n error + 'n graph" where
  "getEstimate tenantId estimateId s =
     (let st = tenants s tenantId
      in case findById (sale_estimates st) estimateId of
           None \<Rightarrow> Inl (ServiceError SALE_ESTIMATE_NOT_FOUND [])
         | Some estimate \<Rightarrow> Inr (fetch_graph st estimate))"

text \<open>A query for entries by (reference\_id, reference\_type), as \<^verbatim>\<open>deleteEstimate\<close> builds it.\<close>

definition entries_by_reference :: "'n store \<Rightarrow> int \<Rightarrow> string \<Rightarrow> 'n obj list" where
  "entries_by_reference st referenceId referenceType =
     filter (\<lambda>r. jsget r ''reference_id'' = Num referenceId
                \<and> jsget r ''reference_type'' = Str referenceType) (items_entries st)"

subsection \<open>Listing\<close>

record 'n estimates_filter =
  page :: int
  pageSize :: int
  criteria :: "'n obj"

text \<open>
  What \<^verbatim>\<open>DynamicListService.dynamicList\<close> returns: a query transformer (conditions and
  sort order) and the metadata echoed to the caller. The service is a parameter.
\<close>

record 'n dynamic_filter =
  buildQuery :: "'n obj list \<Rightarrow> 'n obj list"
  getResponseMeta :: "'n obj"

record pagination_meta =
  meta_total :: int
  meta_page :: int
  meta_pageSize :: int

record 'n estimates_page =
  salesEstimates :: "'n graph list"
  pagination_of :: pagination_meta
  filterMeta :: "'n obj"

text \<open>
  Modelled from the spec: the query builder's \<^verbatim>\<open>pagination(page, pageSize)\<close> is missing.
  The spec has it zero-indexed, returning the result page and the metadata "page,
  pageSize, total count" with the page 1-indexed again at the interface. A negative
  offset or limit is rejected by the storage layer.
\<close>

definition pagination :: "'n obj list \<Rightarrow> int \<Rightarrow> int \<Rightarrow> 'n error + ('n obj list \<times> pagination_meta)" where
  "pagination rows p n =
     (if p < 0 \<or> n < 0 then Inl StorageError
      else Inr (take (nat n) (drop (nat (p * n)) rows),
                \<lparr>meta_total = int (length rows), meta_page = p + 1, meta_pageSize = n\<rparr>))"

definition estimatesList ::
  "('n estimates_filter \<Rightarrow> 'n dynamic_filter) \<Rightarrow> int \<Rightarrow> 'n estimates_filter \<Rightarrow> 'n state
     \<Rightarrow> 'n error + 'n estimates_page" where
  "estimatesList dynamicList tenantId estimatesFilter s =
     (let st = tenants s tenantId;
          dynamicFilter = dynamicList estimatesFilter
      in case pagination (buildQuery dynamicFilter (sale_estimates st))
                (page estimatesFilter - 1) (pageSize estimatesFilter) of
           Inl e \<Rightarrow> Inl e
         | Inr (results, pg) \<Rightarrow>
             Inr \<lparr>salesEstimates = map (fetch_graph st) results,
                  pagination_of = pg,
                  filterMeta = getResponseMeta dynamicFilter\<rparr>)"

section \<open>The bills store actions\<close>

text \<open>
  \<^verbatim>\<open>deleteBill\<close> wraps the request in a new promise. The request settles with a response
  or with an error object; \<^verbatim>\<open>error.response\<close> and \<^verbatim>\<open>response.data\<close> may be undefined (a
  request that never got an answer), and reading a property of undefined throws inside
  the handler, so that neither \<^verbatim>\<open>resolve\<close> nor \<^verbatim>\<open>reject\<close> is ever called.
\<close>

record 'n response_data =
  errors :: "'n obj list option"

record 'n http_response =
  data :: "'n response_data option"

record 'n api_error =
  response :: "'n http_response option"

datatype 'n api_result = Fulfilled "'n http_response" | Rejected "'n api_error"

datatype action = BILL_DELETE int

datatype 'n promise = Resolved "'n http_response" | RejectedWith "'n obj list" | Pending

definition deleteBill :: "int \<Rightarrow> 'n api_result \<Rightarrow> action list \<times> 'n promise" where
  "deleteBill bill_id outcome =
     (case outcome of
        Fulfilled resp \<Rightarrow> ([BILL_DELETE bill_id], Resolved resp)
      | Rejected err \<Rightarrow>
          (case response err of
             None \<Rightarrow> ([], Pending)
           | Some r \<Rightarrow>
               (case data r of
                  None \<Rightarrow> ([], Pending)
                | Some d \<Rightarrow>
                    ([], RejectedWith (case errors d of None \<Rightarrow> [] | Some es \<Rightarrow> es)))))"

section \<open>Stores that the service has written\<close>

text \<open>
  Document ids come from the id sequence, which starts above 0 and only grows: no stored
  document has the id 0. Every write of the service keeps this (see \<open>createEstimate_wf\<close>,
  \<open>editEstimate_wf\<close>, \<open>deleteEstimate_wf\<close> below).
\<close>

definition wf_store :: "'n store \<Rightarrow> bool" where
  "wf_store st =
     (0 < next_estimate_id st \<and> list_all (\<lambda>r. jsget r ''id'' \<noteq> Num 0) (sale_estimates st))"

section \<open>Example data\<close>

text \<open>A small tenant partition and requests against it, for the concrete runs below.\<close>

definition ex_deps :: "int deps" where
  "ex_deps = \<lparr>calcAmount = quantity_times_rate, formatDate = (\<lambda>v. v)\<rparr>"

definition ex_store :: "int store" where
  "ex_store =
     \<lparr>sale_estimates = [], items_entries = [],
      items = [[''id'' \<mapsto> Num 1, ''sellable'' \<mapsto> Num 1]],
      customers = [[''id'' \<mapsto> Num 7]],
      next_estimate_id = 1, next_entry_id = 1\<rparr>"

definition ex_state :: "int state" where
  "ex_state = \<lparr>tenants = (\<lambda>_. ex_store), dispatched = []\<rparr>"

definition ex_entry :: "int obj" where
  "ex_entry = [''itemId'' \<mapsto> Num 1, ''quantity'' \<mapsto> Dbl 2, ''rate'' \<mapsto> Dbl 15, ''amount'' \<mapsto> Dbl 5]"

definition ex_dto :: "int estimate_dto" where
  "ex_dto = \<lparr>estimateNumber = ''E-1'', customerId = 7, entries = [ex_entry], other = Map.empty\<rparr>"

text \<open>The same request with a top-level \<^verbatim>\<open>amount\<close> of the client's own.\<close>

definition ex_dto_amount :: "int estimate_dto" where
  "ex_dto_amount = ex_dto\<lparr>other := [''amount'' \<mapsto> Dbl 999]\<rparr>"

text \<open>Tenant 1 after estimate 1 (number E-1, one entry) has been stored; other tenants are empty.\<close>

definition ex_store1 :: "int store" where
  "ex_store1 =
     \<lparr>sale_estimates =
        [[''id'' \<mapsto> Num 1, ''estimateNumber'' \<mapsto> Str ''E-1'', ''customerId'' \<mapsto> Num 7,
          ''amount'' \<mapsto> Dbl 30]],
      items_entries =
        [[''id'' \<mapsto> Num 1, ''reference_id'' \<mapsto> Num 1, ''reference_type'' \<mapsto> Str ''SaleEstimate'',
          ''itemId'' \<mapsto> Num 1, ''quantity'' \<mapsto> Dbl 2, ''rate'' \<mapsto> Dbl 15]],
      items = [[''id'' \<mapsto> Num 1, ''sellable'' \<mapsto> Num 1]],
      customers = [[''id'' \<mapsto> Num 7]],
      next_estimate_id = 2, next_entry_id = 2\<rparr>"

definition ex_state1 :: "int state" where
  "ex_state1 = \<lparr>tenants = (\<lambda>t. if t = 1 then ex_store1 else ex_store), dispatched = []\<rparr>"

text \<open>A request whose only entry names item 99, which no tenant has.\<close>

definition ex_dto_missing :: "int estimate_dto" where
  "ex_dto_missing = ex_dto\<lparr>entries := [ex_entry(''itemId'' \<mapsto> Num 99)]\<rparr>"

text \<open>The same request for customer 8, whom no tenant has.\<close>

definition ex_dto_no_customer :: "int estimate_dto" where
  "ex_dto_no_customer = ex_dto_missing\<lparr>customerId := 8\<rparr>"

text \<open>A state in which item 1 is not sellable.\<close>

definition ex_state_unsellable :: "int state" where
  "ex_state_unsellable =
     \<lparr>tenants = (\<lambda>_. ex_store\<lparr>items := [[''id'' \<mapsto> Num 1, ''sellable'' \<mapsto> Num 0]]\<rparr>),
      dispatched = []\<rparr>"

text \<open>
  Tenant 1 after two creates, of E-1 and of E-2, and an edit request that keeps the number
  E-1 and carries a top-level \<^verbatim>\<open>id\<close> of 2.
\<close>

definition ex_dto_second :: "int estimate_dto" where
  "ex_dto_second = ex_dto\<lparr>estimateNumber := ''E-2''\<rparr>"

definition ex_two_estimates :: "int state" where
  "ex_two_estimates =
     snd (createEstimate ex_deps 1 ex_dto_second (snd (createEstimate ex_deps 1 ex_dto ex_state)))"

definition ex_dto_other_id :: "int estimate_dto" where
  "ex_dto_other_id = ex_dto\<lparr>other := [''id'' \<mapsto> Num 2]\<rparr>"

text \<open>Two storage behaviours for \<^verbatim>\<open>deleteEstimate\<close>: nothing is rejected; only the document delete is.\<close>

definition ex_no_rejection :: "write_step \<Rightarrow> bool" where
  "ex_no_rejection w = False"

definition ex_document_delete_rejected :: "write_step \<Rightarrow> bool" where
  "ex_document_delete_rejected w = (w = DeleteDocument)"

text \<open>A request whose entry carries a reference type of its own.\<close>

definition ex_dto_bill :: "int estimate_dto" where
  "ex_dto_bill = ex_dto\<lparr>entries := [ex_entry(''reference_type'' \<mapsto> Str ''Bill'')]\<rparr>"

text \<open>An edit request whose entry carries the id 1, the id of the stored entry of estimate 1.\<close>

definition ex_dto_own_entry :: "int estimate_dto" where
  "ex_dto_own_entry = ex_dto\<lparr>entries := [ex_entry(''id'' \<mapsto> Num 1)]\<rparr>"

text \<open>A list request for pages of two, a filter service that keeps the table's order, and
  a state in which every tenant has three estimates.\<close>

definition ex_filter :: "int estimates_filter" where
  "ex_filter = \<lparr>page = 1, pageSize = 2, criteria = Map.empty\<rparr>"

definition ex_dynamicList :: "int estimates_filter \<Rightarrow> int dynamic_filter" where
  "ex_dynamicList f = \<lparr>buildQuery = (\<lambda>rows. rows), getResponseMeta = criteria f\<rparr>"

definition ex_state3 :: "int state" where
  "ex_state3 =
     \<lparr>tenants = (\<lambda>_. ex_store\<lparr>sale_estimates :=
                       [[''id'' \<mapsto> Num 1], [''id'' \<mapsto> Num 2], [''id'' \<mapsto> Num 3]]\<rparr>),
      dispatched = []\<rparr>"

section \<open>Basic facts\<close>

text \<open>Where the addition is associative with unit 0, \<open>sumBy\<close> is the sum of the values.\<close>

lemma sumBy_sum_list:
  fixes f :: "'a \<Rightarrow> 'n::monoid_add"
  shows "sumBy xs f = sum_list (map f xs)"
proof -
  have "foldl (\<lambda>result y. result + f y) a ys = a + sum_list (map f ys)" for a ys
    by (induction ys arbitrary: a) (simp_all add: add.assoc)
  then show ?thesis by (cases xs) (simp_all add: sumBy_def)
qed

lemma spread_apply: "spread a b k = (case b k of None \<Rightarrow> a k | Some v \<Rightarrow> Some v)"
  by (simp add: spread_def map_add_def)

lemmas obj_simps = jsget_def spread_apply omit_def formatDateFields_def dto_props_def truthy_def

lemmas ex_simps = ex_deps_def ex_store_def ex_state_def ex_entry_def ex_dto_def ex_dto_amount_def
  ex_store1_def ex_state1_def ex_dto_missing_def ex_dto_no_customer_def ex_state_unsellable_def
  ex_dto_second_def ex_dto_other_id_def ex_dto_bill_def ex_dto_own_entry_def
  quantity_times_rate_def

lemmas validator_simps = validateEstimateNumberExistance_def getCustomer_def findById_def
  validateItemsIdsExistance_def validateNonSellableEntriesItems_def validateEntriesIdsExistance_def
  getSaleEstimateOrThrowError_def

lemmas write_simps = upsertGraphAndFetch_def create_graph_def edit_graph_def estimateObj_def
  sumBy_def dispatch_def set_store_def is_entry_of_def

lemma find_SomeD: "find P xs = Some x \<Longrightarrow> x \<in> set xs \<and> P x"
  by (induction xs) (auto split: if_splits)

lemma upsert_props:
  assumes "upsertGraphAndFetch st g = Inr (doc, st')" and "props g k = Some v" and "k \<noteq> ''id''"
  shows "props doc k = Some v"
  using assms
  by (auto simp: upsertGraphAndFetch_def Let_def spread_apply split: if_splits option.splits)

lemma upsert_persisted:
  assumes "upsertGraphAndFetch st g = Inr (doc, st')"
  shows "props doc \<in> set (sale_estimates st')"
proof (cases "jsget (props g) ''id'' = Undefined")
  case True
  with assms show ?thesis
    by (auto simp: upsertGraphAndFetch_def Let_def split: option.splits)
next
  case False
  with assms obtain old where
    f: "find (\<lambda>r. jsget r ''id'' = jsget (props g) ''id'') (sale_estimates st) = Some old"
    and d: "props doc = spread old (props g)"
    and s: "sale_estimates st' =
      map (\<lambda>r. if jsget r ''id'' = jsget (props g) ''id'' then spread old (props g) else r) (sale_estimates st)"
    by (auto simp: upsertGraphAndFetch_def Let_def split: option.splits)
  from find_SomeD[OF f] have "old \<in> set (sale_estimates st)" "jsget old ''id'' = jsget (props g) ''id''"
    by simp_all
  then have "spread old (props g) \<in> set (sale_estimates st')"
    unfolding s by (force simp: image_iff)
  with d show ?thesis by simp
qed

lemma createEstimate_InrD:
  assumes "createEstimate D t dto s = (Inr doc, s')"
  shows "\<exists>st'. upsertGraphAndFetch (tenants s t) (create_graph (estimateObj D dto)) = Inr (doc, st')
           \<and> s' = dispatch (Event OnCreated None) (set_store s t st')
           \<and> validateEstimateNumberExistance (tenants s t) (estimateNumber dto) None = Inr ()
           \<and> (\<exists>c. getCustomer (tenants s t) (customerId dto) = Inr c)
           \<and> validateItemsIdsExistance (tenants s t) (entries dto) = Inr ()
           \<and> validateNonSellableEntriesItems (tenants s t) (entries dto) = Inr ()"
  using assms
  by (auto simp: createEstimate_def Let_def split: sum.splits)

lemma editEstimate_InrD:
  assumes "editEstimate D t i dto s = (Inr doc, s')"
  shows "\<exists>st' old. upsertGraphAndFetch (tenants s t) (edit_graph i (estimateObj D dto)) = Inr (doc, st')
           \<and> getSaleEstimateOrThrowError (tenants s t) i = Inr old
           \<and> s' = dispatch (Event OnEdited (Some (EditedPayload t i doc old))) (set_store s t st')
           \<and> validateEstimateNumberExistance (tenants s t) (estimateNumber dto) (Some i) = Inr ()
           \<and> (\<exists>c. getCustomer (tenants s t) (customerId dto) = Inr c)
           \<and> validateEntriesIdsExistance (tenants s t) i ''SaleEstiamte'' (entries dto) = Inr ()
           \<and> validateItemsIdsExistance (tenants s t) (entries dto) = Inr ()
           \<and> validateNonSellableEntriesItems (tenants s t) (entries dto) = Inr ()"
  using assms
  by (auto simp: editEstimate_def Let_def split: sum.splits)

lemma tenants_after_write [simp]:
  "tenants (dispatch ev (set_store s t st')) t = st'"
  by (simp add: dispatch_def set_store_def)

lemma estimateObj_amount:
  "other dto ''amount'' = None \<Longrightarrow>
   props (estimateObj D dto) ''amount'' = Some (Dbl (sumBy (entries dto) (calcAmount D)))"
  by (simp add: estimateObj_def obj_simps)

section \<open>The document's amount\<close>

text \<open>
  For a request that carries no top-level \<^verbatim>\<open>amount\<close> property, the document that
  \<^verbatim>\<open>createEstimate\<close> or \<^verbatim>\<open>editEstimate\<close> persists has as its \<^verbatim>\<open>amount\<close> the left-to-right
  sum, over the request's entries, of \<^verbatim>\<open>ItemEntry.calcAmount\<close>, and that document is a row of
  the tenant's table afterwards.
\<close>

lemma amount_without_client_amount:
  assumes "other dto ''amount'' = None"
  shows "(createEstimate D t dto s = (Inr doc, s') \<longrightarrow>
            jsget (props doc) ''amount'' = Dbl (sumBy (entries dto) (calcAmount D))
            \<and> props doc \<in> set (sale_estimates (tenants s' t)))
       \<and> (editEstimate D t i dto s = (Inr doc, s') \<longrightarrow>
            jsget (props doc) ''amount'' = Dbl (sumBy (entries dto) (calcAmount D))
            \<and> props doc \<in> set (sale_estimates (tenants s' t)))"
proof (intro conjI impI)
  assume c: "createEstimate D t dto s = (Inr doc, s')"
  from createEstimate_InrD[OF c] obtain st' where
    u: "upsertGraphAndFetch (tenants s t) (create_graph (estimateObj D dto)) = Inr (doc, st')"
    and s': "s' = dispatch (Event OnCreated None) (set_store s t st')" by blast
  have "props (create_graph (estimateObj D dto)) ''amount''
          = Some (Dbl (sumBy (entries dto) (calcAmount D)))"
    using estimateObj_amount[OF assms] by (simp add: create_graph_def omit_def)
  from upsert_props[OF u this]
  show "jsget (props doc) ''amount'' = Dbl (sumBy (entries dto) (calcAmount D))"
    by (simp add: jsget_def)
  from upsert_persisted[OF u] show "props doc \<in> set (sale_estimates (tenants s' t))"
    by (simp add: s')
next
  assume c: "editEstimate D t i dto s = (Inr doc, s')"
  from editEstimate_InrD[OF c] obtain st' old where
    u: "upsertGraphAndFetch (tenants s t) (edit_graph i (estimateObj D dto)) = Inr (doc, st')"
    and s': "s' = dispatch (Event OnEdited (Some (EditedPayload t i doc old))) (set_store s t st')"
    by blast
  have "props (edit_graph i (estimateObj D dto)) ''amount''
          = Some (Dbl (sumBy (entries dto) (calcAmount D)))"
    using estimateObj_amount[OF assms] by (simp add: edit_graph_def omit_def spread_apply)
  from upsert_props[OF u this]
  show "jsget (props doc) ''amount'' = Dbl (sumBy (entries dto) (calcAmount D))"
    by (simp add: jsget_def)
  from upsert_persisted[OF u] show "props doc \<in> set (sale_estimates (tenants s' t))"
    by (simp add: s')
qed

text \<open>
  C1, evaluated. The service computes the sum and writes it first into the object, and
  then spreads the request over it: \<^verbatim>\<open>{ amount, ...formatDateFields(estimateDTO, ...) }\<close>. A
  request that carries a top-level \<^verbatim>\<open>amount\<close> therefore replaces the computed one. Here the
  one entry has quantity 2 at rate 15, so the computed sum is 30, and the request carries
  \<^verbatim>\<open>amount: 999\<close>: the document is returned and stored with 999, by \<^verbatim>\<open>createEstimate\<close> and
  by \<^verbatim>\<open>editEstimate\<close> alike. The same request without the top-level \<^verbatim>\<open>amount\<close> is stored
  with 30.
\<close>

theorem C1_client_amount_replaces_computed_sum:
  "sumBy (entries ex_dto_amount) (calcAmount ex_deps) = 30
   \<and> (case fst (createEstimate ex_deps 1 ex_dto_amount ex_state) of
         Inl e \<Rightarrow> Undefined
       | Inr doc \<Rightarrow> jsget (props doc) ''amount'') = Dbl 999
   \<and> map (\<lambda>r. jsget r ''amount'')
        (sale_estimates (tenants (snd (createEstimate ex_deps 1 ex_dto_amount ex_state)) 1))
        = [Dbl 999]
   \<and> map (\<lambda>r. jsget r ''amount'')
        (sale_estimates (tenants (snd (editEstimate ex_deps 1 1 ex_dto_amount ex_state1)) 1))
        = [Dbl 999]
   \<and> map (\<lambda>r. jsget r ''amount'')
        (sale_estimates (tenants (snd (createEstimate ex_deps 1 ex_dto ex_state)) 1))
        = [Dbl 30]"
  by (simp add: createEstimate_def editEstimate_def validator_simps write_simps ex_simps obj_simps
      Let_def)

section \<open>Validation comes before the write\<close>

text \<open>
  A \<^verbatim>\<open>ServiceError\<close> is thrown by a validation only, and every validation is called before
  the write: the state is as it was.
\<close>

lemma createEstimate_ServiceError_unchanged:
  assumes "fst (createEstimate D t dto s) = Inl (ServiceError code ids)"
  shows "snd (createEstimate D t dto s) = s"
  using assms by (auto simp: createEstimate_def Let_def split: sum.splits)

lemma createEstimate_number_taken:
  assumes "validateEstimateNumberExistance (tenants s t) (estimateNumber dto) None = Inl e"
  shows "createEstimate D t dto s = (Inl e, s)"
  using assms by (simp add: createEstimate_def Let_def)

lemma createEstimate_no_customer:
  assumes "validateEstimateNumberExistance (tenants s t) (estimateNumber dto) None = Inr ()"
    and "getCustomer (tenants s t) (customerId dto) = Inl e"
  shows "createEstimate D t dto s = (Inl e, s)"
  using assms by (simp add: createEstimate_def Let_def)

lemma createEstimate_missing_items:
  assumes "validateEstimateNumberExistance (tenants s t) (estimateNumber dto) None = Inr ()"
    and "getCustomer (tenants s t) (customerId dto) = Inr c"
    and "\<exists>e \<in> set (entries dto). jsget e ''itemId'' \<notin> (\<lambda>r. jsget r ''id'') ` set (items (tenants s t))"
  shows "createEstimate D t dto s =
          (Inl (ServiceError ITEMS_IDS_NOT_EXISTS
                 (filter (\<lambda>i. i \<notin> (\<lambda>r. jsget r ''id'') ` set (items (tenants s t)))
                    (map (\<lambda>e. jsget e ''itemId'') (entries dto)))), s)"
proof -
  from assms(3) have "filter (\<lambda>i. i \<notin> (\<lambda>r. jsget r ''id'') ` set (items (tenants s t)))
                    (map (\<lambda>e. jsget e ''itemId'') (entries dto)) \<noteq> []"
    by (auto simp: filter_empty_conv)
  with assms(1,2) show ?thesis
    by (simp add: createEstimate_def validateItemsIdsExistance_def Let_def)
qed

lemma createEstimate_not_sellable:
  assumes "validateEstimateNumberExistance (tenants s t) (estimateNumber dto) None = Inr ()"
    and "getCustomer (tenants s t) (customerId dto) = Inr c"
    and "validateItemsIdsExistance (tenants s t) (entries dto) = Inr ()"
    and "validateNonSellableEntriesItems (tenants s t) (entries dto) = Inl e"
  shows "createEstimate D t dto s = (Inl e, s)"
  using assms by (simp add: createEstimate_def Let_def)

lemma createEstimate_validated:
  assumes "fst (createEstimate D t dto s) = Inr doc"
  shows "validateEstimateNumberExistance (tenants s t) (estimateNumber dto) None = Inr ()
        \<and> (\<exists>c. getCustomer (tenants s t) (customerId dto) = Inr c)
        \<and> validateItemsIdsExistance (tenants s t) (entries dto) = Inr ()
        \<and> validateNonSellableEntriesItems (tenants s t) (entries dto) = Inr ()"
proof -
  obtain s' where "createEstimate D t dto s = (Inr doc, s')"
    using assms by (cases "createEstimate D t dto s") simp
  from createEstimate_InrD[OF this] show ?thesis by blast
qed

text \<open>
  C2, as amended. The validations of \<^verbatim>\<open>createEstimate\<close> run in the order uniqueness,
  customer, item existence, sellability, and the first one that fails decides the error:
  a taken number is reported whatever the rest of the request; a missing customer is
  reported once the number is free; a request that passes these two and has an entry
  whose item id is not in the tenant's storage fails with \<^verbatim>\<open>ITEMS_IDS_NOT_EXISTS\<close> listing
  the missing ids, in request order; an item that is not sellable is reported once the
  first three have passed. In each of these cases, and whenever \<^verbatim>\<open>createEstimate\<close> fails
  with a validation's error, the state is left as it was; and a success means that all
  four validations have passed.
\<close>

theorem C2_missing_items_rejected_before_write:
  "(validateEstimateNumberExistance (tenants s t) (estimateNumber dto) None = Inl e \<longrightarrow>
      createEstimate D t dto s = (Inl e, s))
   \<and> (validateEstimateNumberExistance (tenants s t) (estimateNumber dto) None = Inr ()
        \<and> getCustomer (tenants s t) (customerId dto) = Inl e \<longrightarrow>
      createEstimate D t dto s = (Inl e, s))
   \<and> (validateEstimateNumberExistance (tenants s t) (estimateNumber dto) None = Inr ()
        \<and> getCustomer (tenants s t) (customerId dto) = Inr c
        \<and> (\<exists>e \<in> set (entries dto).
              jsget e ''itemId'' \<notin> (\<lambda>r. jsget r ''id'') ` set (items (tenants s t))) \<longrightarrow>
      createEstimate D t dto s =
        (Inl (ServiceError ITEMS_IDS_NOT_EXISTS
               (filter (\<lambda>i. i \<notin> (\<lambda>r. jsget r ''id'') ` set (items (tenants s t)))
                  (map (\<lambda>e. jsget e ''itemId'') (entries dto)))), s))
   \<and> (validateEstimateNumberExistance (tenants s t) (estimateNumber dto) None = Inr ()
        \<and> getCustomer (tenants s t) (customerId dto) = Inr c
        \<and> validateItemsIdsExistance (tenants s t) (entries dto) = Inr ()
        \<and> validateNonSellableEntriesItems (tenants s t) (entries dto) = Inl e \<longrightarrow>
      createEstimate D t dto s = (Inl e, s))
   \<and> (fst (createEstimate D t dto s) = Inl (ServiceError code ids) \<longrightarrow>
        snd (createEstimate D t dto s) = s)
   \<and> (fst (createEstimate D t dto s) = Inr doc \<longrightarrow>
        validateEstimateNumberExistance (tenants s t) (estimateNumber dto) None = Inr ()
        \<and> (\<exists>c. getCustomer (tenants s t) (customerId dto) = Inr c)
        \<and> validateItemsIdsExistance (tenants s t) (entries dto) = Inr ()
        \<and> validateNonSellableEntriesItems (tenants s t) (entries dto) = Inr ())"
  using createEstimate_number_taken[of s t dto e D] createEstimate_no_customer[of s t dto e D]
    createEstimate_missing_items[of s t dto c D] createEstimate_not_sellable[of s t dto c e D]
    createEstimate_ServiceError_unchanged[of D t dto s code ids]
    createEstimate_validated[of D t dto s doc]
  by blast

text \<open>
  The theorem at work. In tenant 1 of \<open>ex_state1\<close> the number E-1 is taken: the request for
  the missing item 99 under that number is rejected for the number. In the empty tenant
  the same request for the unknown customer 8 is rejected for the customer; for customer
  7 it is rejected with exactly the id 99, and nothing is written. Where item 1 is not
  sellable the request for it is rejected for that. The request for the sellable item 1
  succeeds, so its validations have passed.
\<close>

theorem C2_missing_items_witness:
  "createEstimate ex_deps 1 ex_dto_missing ex_state1
     = (Inl (ServiceError SALE_ESTIMATE_NUMBER_EXISTANCE []), ex_state1)
   \<and> createEstimate ex_deps 1 ex_dto_no_customer ex_state
     = (Inl (ServiceError CUSTOMER_NOT_FOUND []), ex_state)
   \<and> createEstimate ex_deps 1 ex_dto_missing ex_state
     = (Inl (ServiceError ITEMS_IDS_NOT_EXISTS [Num 99]), ex_state)
   \<and> createEstimate ex_deps 1 ex_dto ex_state_unsellable
     = (Inl (ServiceError NOT_SELLABLE_ITEMS [Num 1]), ex_state_unsellable)
   \<and> snd (createEstimate ex_deps 1 ex_dto_missing ex_state) = ex_state
   \<and> (\<exists>doc. fst (createEstimate ex_deps 1 ex_dto ex_state) = Inr doc)
   \<and> validateItemsIdsExistance (tenants ex_state 1) (entries ex_dto) = Inr ()"
proof -
  note main = C2_missing_items_rejected_before_write
  have u1: "validateEstimateNumberExistance (tenants ex_state1 1) (estimateNumber ex_dto_missing) None
      = Inl (ServiceError SALE_ESTIMATE_NUMBER_EXISTANCE [])"
    by (simp add: validator_simps ex_simps obj_simps)
  from main[where s = ex_state1 and t = 1 and dto = ex_dto_missing and D = ex_deps
      and e = "ServiceError SALE_ESTIMATE_NUMBER_EXISTANCE []"] u1
  have 1: "createEstimate ex_deps 1 ex_dto_missing ex_state1
     = (Inl (ServiceError SALE_ESTIMATE_NUMBER_EXISTANCE []), ex_state1)"
    by blast
  have u2: "validateEstimateNumberExistance (tenants ex_state 1) (estimateNumber ex_dto_no_customer) None
      = Inr ()
    \<and> getCustomer (tenants ex_state 1) (customerId ex_dto_no_customer)
      = Inl (ServiceError CUSTOMER_NOT_FOUND [])"
    by (simp add: validator_simps ex_simps obj_simps)
  from main[where s = ex_state and t = 1 and dto = ex_dto_no_customer and D = ex_deps
      and e = "ServiceError CUSTOMER_NOT_FOUND []"] u2
  have 2: "createEstimate ex_deps 1 ex_dto_no_customer ex_state
     = (Inl (ServiceError CUSTOMER_NOT_FOUND []), ex_state)"
    by blast
  have u3: "validateEstimateNumberExistance (tenants ex_state 1) (estimateNumber ex_dto_missing) None
      = Inr ()
    \<and> getCustomer (tenants ex_state 1) (customerId ex_dto_missing) = Inr [''id'' \<mapsto> Num 7]
    \<and> (\<exists>e \<in> set (entries ex_dto_missing).
          jsget e ''itemId'' \<notin> (\<lambda>r. jsget r ''id'') ` set (items (tenants ex_state 1)))"
    by (simp add: validator_simps ex_simps obj_simps)
  have f: "filter (\<lambda>i. i \<notin> (\<lambda>r. jsget r ''id'') ` set (items (tenants ex_state 1)))
             (map (\<lambda>e. jsget e ''itemId'') (entries ex_dto_missing)) = [Num 99]"
    by (simp add: ex_simps obj_simps)
  from main[where s = ex_state and t = 1 and dto = ex_dto_missing and D = ex_deps
      and c = "[''id'' \<mapsto> Num 7]"] u3
  have 3: "createEstimate ex_deps 1 ex_dto_missing ex_state
     = (Inl (ServiceError ITEMS_IDS_NOT_EXISTS [Num 99]), ex_state)"
    unfolding f by blast
  have u4: "validateEstimateNumberExistance (tenants ex_state_unsellable 1) (estimateNumber ex_dto) None
      = Inr ()
    \<and> getCustomer (tenants ex_state_unsellable 1) (customerId ex_dto) = Inr [''id'' \<mapsto> Num 7]
    \<and> validateItemsIdsExistance (tenants ex_state_unsellable 1) (entries ex_dto) = Inr ()
    \<and> validateNonSellableEntriesItems (tenants ex_state_unsellable 1) (entries ex_dto)
      = Inl (ServiceError NOT_SELLABLE_ITEMS [Num 1])"
    by (simp add: validator_simps ex_simps obj_simps)
  from main[where s = ex_state_unsellable and t = 1 and dto = ex_dto and D = ex_deps
      and c = "[''id'' \<mapsto> Num 7]" and e = "ServiceError NOT_SELLABLE_ITEMS [Num 1]"] u4
  have 4: "createEstimate ex_deps 1 ex_dto ex_state_unsellable
     = (Inl (ServiceError NOT_SELLABLE_ITEMS [Num 1]), ex_state_unsellable)"
    by blast
  from 3 have a: "fst (createEstimate ex_deps 1 ex_dto_missing ex_state)
      = Inl (ServiceError ITEMS_IDS_NOT_EXISTS [Num 99])"
    by simp
  from main[where s = ex_state and t = 1 and dto = ex_dto_missing and D = ex_deps
      and code = ITEMS_IDS_NOT_EXISTS and ids = "[Num 99]"] a
  have 5: "snd (createEstimate ex_deps 1 ex_dto_missing ex_state) = ex_state"
    by blast
  obtain doc where d: "fst (createEstimate ex_deps 1 ex_dto ex_state) = Inr doc"
    by (simp add: createEstimate_def validator_simps write_simps ex_simps obj_simps Let_def)
  from main[where s = ex_state and t = 1 and dto = ex_dto and D = ex_deps and doc = doc] d
  have 6: "validateItemsIdsExistance (tenants ex_state 1) (entries ex_dto) = Inr ()"
    by blast
  from 1 2 3 4 5 d 6 show ?thesis by blast
qed

text \<open>
  C2 as stated fails: a request with the missing item 99 and the number E-1, which tenant 1
  already uses, is rejected by the uniqueness validation, not with \<^verbatim>\<open>ITEMS_IDS_NOT_EXISTS\<close>.
\<close>

theorem C2_earlier_validation_counterexample:
  "list_ex (\<lambda>e. jsget e ''itemId'' \<notin> set (map (\<lambda>r. jsget r ''id'') (items (tenants ex_state1 1))))
      (entries ex_dto_missing)
   \<and> fst (createEstimate ex_deps 1 ex_dto_missing ex_state1) =
       Inl (ServiceError SALE_ESTIMATE_NUMBER_EXISTANCE [])"
  by (simp add: createEstimate_def validator_simps ex_simps obj_simps Let_def)

section \<open>Uniqueness of the estimate number within a tenant\<close>

text \<open>
  What the uniqueness validation does: in a tenant whose document ids come from the id
  sequence it raises \<^verbatim>\<open>SALE_ESTIMATE_NUMBER_EXISTANCE\<close> exactly when some document other
  than the excluded id uses the number (\<open>uniqueness_exact\<close>). After a successful create a
  second create with the same number in the same tenant fails (\<open>second_create_fails\<close>),
  and a create in one tenant leaves every other tenant as it was
  (\<open>createEstimate_other_tenant\<close>).
\<close>

lemma validateEstimateNumberExistance_iff:
  "validateEstimateNumberExistance st n ex =
     (if \<exists>r \<in> set (sale_estimates st). jsget r ''estimateNumber'' = Str n
            \<and> (case ex of None \<Rightarrow> True | Some i \<Rightarrow> i = 0 \<or> jsget r ''id'' \<noteq> Num i)
      then Inl (ServiceError SALE_ESTIMATE_NUMBER_EXISTANCE []) else Inr ())"
proof -
  have *: "(case xs of [] \<Rightarrow> Inr () | x # _ \<Rightarrow> Inl (ServiceError SALE_ESTIMATE_NUMBER_EXISTANCE []))
        = (if \<exists>x. x \<in> set xs then Inl (ServiceError SALE_ESTIMATE_NUMBER_EXISTANCE []) else Inr ())"
    for xs :: "'n obj list"
    by (cases xs) auto
  show ?thesis
    unfolding validateEstimateNumberExistance_def Let_def *
    by (cases ex) (auto simp: truthy_def filter_empty_conv)
qed

lemma uniqueness_exact:
  assumes "wf_store st"
  shows "validateEstimateNumberExistance st n ex =
     (if \<exists>r \<in> set (sale_estimates st). jsget r ''estimateNumber'' = Str n
            \<and> (\<forall>i. ex = Some i \<longrightarrow> jsget r ''id'' \<noteq> Num i)
      then Inl (ServiceError SALE_ESTIMATE_NUMBER_EXISTANCE []) else Inr ())"
proof -
  have nz: "jsget r ''id'' \<noteq> Num 0" if "r \<in> set (sale_estimates st)" for r
    using assms that by (auto simp: wf_store_def list_all_iff)
  have "(\<exists>r \<in> set (sale_estimates st). jsget r ''estimateNumber'' = Str n
            \<and> (case ex of None \<Rightarrow> True | Some i \<Rightarrow> i = 0 \<or> jsget r ''id'' \<noteq> Num i))
      = (\<exists>r \<in> set (sale_estimates st). jsget r ''estimateNumber'' = Str n
            \<and> (\<forall>i. ex = Some i \<longrightarrow> jsget r ''id'' \<noteq> Num i))"
    using nz by (cases ex) auto
  then show ?thesis by (simp only: validateEstimateNumberExistance_iff)
qed

lemma estimateObj_number:
  "props (estimateObj D dto) ''estimateNumber'' = Some (Str (estimateNumber dto))"
  by (simp add: estimateObj_def obj_simps)

lemma second_create_fails:
  assumes "createEstimate D t dto s = (Inr doc, s')" and "estimateNumber dto2 = estimateNumber dto"
  shows "createEstimate D2 t dto2 s' = (Inl (ServiceError SALE_ESTIMATE_NUMBER_EXISTANCE []), s')"
proof -
  from createEstimate_InrD[OF assms(1)] obtain st' where
    u: "upsertGraphAndFetch (tenants s t) (create_graph (estimateObj D dto)) = Inr (doc, st')"
    and s': "s' = dispatch (Event OnCreated None) (set_store s t st')" by blast
  have "props (create_graph (estimateObj D dto)) ''estimateNumber'' = Some (Str (estimateNumber dto))"
    using estimateObj_number by (simp add: create_graph_def omit_def)
  from upsert_props[OF u this] have n: "jsget (props doc) ''estimateNumber'' = Str (estimateNumber dto)"
    by (simp add: jsget_def)
  from upsert_persisted[OF u] have "props doc \<in> set (sale_estimates (tenants s' t))"
    by (simp add: s')
  with n assms(2) have "validateEstimateNumberExistance (tenants s' t) (estimateNumber dto2) None
      = Inl (ServiceError SALE_ESTIMATE_NUMBER_EXISTANCE [])"
    by (auto simp: validateEstimateNumberExistance_iff)
  then show ?thesis by (simp add: createEstimate_def Let_def)
qed

lemma createEstimate_other_tenant:
  assumes "t2 \<noteq> t"
  shows "tenants (snd (createEstimate D t dto s)) t2 = tenants s t2"
  by (auto simp: createEstimate_def Let_def dispatch_def set_store_def assms split: sum.splits)

lemma createEstimate_fst_cong:
  assumes "tenants s1 t = tenants s2 t"
  shows "fst (createEstimate D t dto s1) = fst (createEstimate D t dto s2)"
  using assms by (auto simp: createEstimate_def Let_def split: sum.splits)

lemma findById_SomeD: "findById rows i = Some r \<Longrightarrow> r \<in> set rows \<and> jsget r ''id'' = Num i"
  unfolding findById_def by (drule find_SomeD) simp

lemma upsert_wf:
  assumes "wf_store st" and "upsertGraphAndFetch st g = Inr (doc, st')"
  shows "wf_store st'"
proof (cases "jsget (props g) ''id'' = Undefined")
  case True
  with assms show ?thesis
    by (auto simp: upsertGraphAndFetch_def Let_def wf_store_def list_all_iff jsget_def split: option.splits)
next
  case False
  with assms(2) obtain old where
    f: "find (\<lambda>r. jsget r ''id'' = jsget (props g) ''id'') (sale_estimates st) = Some old"
    and s: "sale_estimates st' =
      map (\<lambda>r. if jsget r ''id'' = jsget (props g) ''id'' then spread old (props g) else r) (sale_estimates st)"
    and n: "next_estimate_id st' = next_estimate_id st"
    by (auto simp: upsertGraphAndFetch_def Let_def split: option.splits)
  from find_SomeD[OF f] assms(1) have "jsget (props g) ''id'' \<noteq> Num 0"
    by (auto simp: wf_store_def list_all_iff)
  moreover from False have "jsget (spread old (props g)) ''id'' = jsget (props g) ''id''"
    by (auto simp: jsget_def spread_apply split: option.splits)
  ultimately show ?thesis
    using assms(1) by (auto simp: wf_store_def list_all_iff s n)
qed

lemma createEstimate_wf:
  assumes "wf_store (tenants s t')"
  shows "wf_store (tenants (snd (createEstimate D t dto s)) t')"
  using assms upsert_wf[of "tenants s t" "create_graph (estimateObj D dto)"]
  by (auto simp: createEstimate_def Let_def dispatch_def set_store_def split: sum.splits)

lemma editEstimate_wf:
  assumes "wf_store (tenants s t')"
  shows "wf_store (tenants (snd (editEstimate D t i dto s)) t')"
  using assms upsert_wf[of "tenants s t" "edit_graph i (estimateObj D dto)"]
  by (auto simp: editEstimate_def Let_def dispatch_def set_store_def split: sum.splits)

lemma deleteEstimate_wf:
  assumes "wf_store (tenants s t')"
  shows "wf_store (tenants (snd (deleteEstimate rejects t i s)) t')"
  using assms
  by (auto simp: deleteEstimate_def Let_def dispatch_def set_store_def wf_store_def list_all_iff
      split: sum.splits)


text \<open>
  C3, evaluated. Tenant 1 holds estimate 1 with the number E-1 and estimate 2 with E-2, both
  created by the service. Editing estimate 1 with its own number passes the uniqueness
  validation, which excludes the id 1. But \<^verbatim>\<open>editEstimate\<close> writes
  \<^verbatim>\<open>{ id: estimateId, ...estimateObj }\<close>, so a request that carries a top-level \<^verbatim>\<open>id\<close> of 2
  is validated against estimate 1 and written to estimate 2: the edit succeeds, returns
  document 2, and leaves both documents with the number E-1. From then on editing
  estimate 1 with its own, unchanged number fails with \<^verbatim>\<open>SALE_ESTIMATE_NUMBER_EXISTANCE\<close>.
\<close>

theorem C3_own_number_rejected_after_id_override:
  "map (\<lambda>r. (jsget r ''id'', jsget r ''estimateNumber'')) (sale_estimates (tenants ex_two_estimates 1))
     = [(Num 1, Str ''E-1''), (Num 2, Str ''E-2'')]
   \<and> validateEstimateNumberExistance (tenants ex_two_estimates 1) ''E-1'' (Some 1) = Inr ()
   \<and> map_sum id (\<lambda>doc. jsget (props doc) ''id'')
        (fst (editEstimate ex_deps 1 1 ex_dto_other_id ex_two_estimates)) = Inr (Num 2)
   \<and> map (\<lambda>r. (jsget r ''id'', jsget r ''estimateNumber''))
        (sale_estimates (tenants (snd (editEstimate ex_deps 1 1 ex_dto_other_id ex_two_estimates)) 1))
     = [(Num 1, Str ''E-1''), (Num 2, Str ''E-1'')]
   \<and> fst (editEstimate ex_deps 1 1 ex_dto
             (snd (editEstimate ex_deps 1 1 ex_dto_other_id ex_two_estimates)))
     = Inl (ServiceError SALE_ESTIMATE_NUMBER_EXISTANCE [])"
  by (simp add: ex_two_estimates_def createEstimate_def editEstimate_def validator_simps write_simps
      ex_simps obj_simps Let_def)

section \<open>Deleting an estimate\<close>

lemma getSaleEstimate_InrD:
  "getSaleEstimateOrThrowError st i = Inr old \<Longrightarrow> findById (sale_estimates st) i = Some old"
  by (simp add: getSaleEstimateOrThrowError_def split: option.splits)

lemma findById_filter_out: "findById (filter (\<lambda>r. jsget r ''id'' \<noteq> Num i) rows) i = None"
  by (induction rows) (auto simp: findById_def)

lemma deleteEstimate_ok:
  assumes "getSaleEstimateOrThrowError (tenants s t) i = Inr old"
    and "\<not> rejects DeleteEntries" and "\<not> rejects DeleteDocument"
  shows "deleteEstimate rejects t i s =
     (Inr (),
      dispatch (Event OnDeleted (Some (DeletedPayload t i old)))
        (set_store s t ((tenants s t)
           \<lparr>items_entries := filter (\<lambda>r. \<not> (jsget r ''reference_id'' = Num i
                                  \<and> jsget r ''reference_type'' = Str ''SaleEstimate''))
                               (items_entries (tenants s t)),
            sale_estimates := filter (\<lambda>r. jsget r ''id'' \<noteq> Num i) (sale_estimates (tenants s t))\<rparr>)))"
  using assms by (simp add: deleteEstimate_def Let_def)

text \<open>
  C4. For an existing document id, when the storage rejects neither write,
  \<^verbatim>\<open>deleteEstimate\<close> succeeds; afterwards \<^verbatim>\<open>getEstimate\<close> on that id fails with
  \<^verbatim>\<open>SALE_ESTIMATE_NOT_FOUND\<close>, the query for entries by (reference\_id, reference\_type) of
  the document is empty, and exactly the rows of that id and the entries of that pair are
  gone from the two tables.
\<close>

theorem C4_delete_removes_document_and_entries:
  "getSaleEstimateOrThrowError (tenants s t) i = Inr old
     \<and> \<not> rejects DeleteEntries \<and> \<not> rejects DeleteDocument \<longrightarrow>
   fst (deleteEstimate rejects t i s) = Inr ()
   \<and> getEstimate t i (snd (deleteEstimate rejects t i s))
       = Inl (ServiceError SALE_ESTIMATE_NOT_FOUND [])
   \<and> entries_by_reference (tenants (snd (deleteEstimate rejects t i s)) t) i ''SaleEstimate'' = []
   \<and> sale_estimates (tenants (snd (deleteEstimate rejects t i s)) t)
       = filter (\<lambda>r. jsget r ''id'' \<noteq> Num i) (sale_estimates (tenants s t))
   \<and> items_entries (tenants (snd (deleteEstimate rejects t i s)) t)
       = filter (\<lambda>r. \<not> (jsget r ''reference_id'' = Num i
                          \<and> jsget r ''reference_type'' = Str ''SaleEstimate''))
           (items_entries (tenants s t))"
proof
  assume a: "getSaleEstimateOrThrowError (tenants s t) i = Inr old
     \<and> \<not> rejects DeleteEntries \<and> \<not> rejects DeleteDocument"
  then have d: "deleteEstimate rejects t i s =
     (Inr (),
      dispatch (Event OnDeleted (Some (DeletedPayload t i old)))
        (set_store s t ((tenants s t)
           \<lparr>items_entries := filter (\<lambda>r. \<not> (jsget r ''reference_id'' = Num i
                                  \<and> jsget r ''reference_type'' = Str ''SaleEstimate''))
                               (items_entries (tenants s t)),
            sale_estimates := filter (\<lambda>r. jsget r ''id'' \<noteq> Num i) (sale_estimates (tenants s t))\<rparr>)))"
    by (simp add: deleteEstimate_ok)
  show "fst (deleteEstimate rejects t i s) = Inr ()
   \<and> getEstimate t i (snd (deleteEstimate rejects t i s))
       = Inl (ServiceError SALE_ESTIMATE_NOT_FOUND [])
   \<and> entries_by_reference (tenants (snd (deleteEstimate rejects t i s)) t) i ''SaleEstimate'' = []
   \<and> sale_estimates (tenants (snd (deleteEstimate rejects t i s)) t)
       = filter (\<lambda>r. jsget r ''id'' \<noteq> Num i) (sale_estimates (tenants s t))
   \<and> items_entries (tenants (snd (deleteEstimate rejects t i s)) t)
       = filter (\<lambda>r. \<not> (jsget r ''reference_id'' = Num i
                          \<and> jsget r ''reference_type'' = Str ''SaleEstimate''))
           (items_entries (tenants s t))"
    unfolding d
    by (simp add: getEstimate_def entries_by_reference_def findById_filter_out filter_empty_conv)
qed

text \<open>The theorem at work: estimate 1 of tenant 1, with its one entry, is deleted.\<close>

theorem C4_delete_witness:
  "fst (deleteEstimate ex_no_rejection 1 1 ex_state1) = Inr ()
   \<and> getEstimate 1 1 (snd (deleteEstimate ex_no_rejection 1 1 ex_state1))
       = Inl (ServiceError SALE_ESTIMATE_NOT_FOUND [])
   \<and> entries_by_reference (tenants (snd (deleteEstimate ex_no_rejection 1 1 ex_state1)) 1) 1 ''SaleEstimate'' = []
   \<and> length (entries_by_reference (tenants ex_state1 1) 1 ''SaleEstimate'') = 1"
proof -
  obtain old where o: "getSaleEstimateOrThrowError (tenants ex_state1 1) 1 = Inr old"
    by (simp add: validator_simps ex_simps obj_simps)
  have n: "\<not> ex_no_rejection DeleteEntries \<and> \<not> ex_no_rejection DeleteDocument"
    by (simp add: ex_no_rejection_def)
  have l: "length (entries_by_reference (tenants ex_state1 1) 1 ''SaleEstimate'') = 1"
    by (simp add: entries_by_reference_def ex_simps obj_simps)
  from C4_delete_removes_document_and_entries[where s = ex_state1 and t = 1 and i = 1 and old = old
      and rejects = ex_no_rejection] o n l
  show ?thesis by blast
qed


subsection \<open>The two deletes are separate writes\<close>

lemma deleteEstimate_entries_rejected:
  assumes "getSaleEstimateOrThrowError (tenants s t) i = Inr old" and "rejects DeleteEntries"
  shows "deleteEstimate rejects t i s = (Inl StorageError, s)"
  using assms by (simp add: deleteEstimate_def Let_def)

lemma deleteEstimate_document_rejected:
  assumes "getSaleEstimateOrThrowError (tenants s t) i = Inr old"
    and "\<not> rejects DeleteEntries" and "rejects DeleteDocument"
  shows "deleteEstimate rejects t i s =
     (Inl StorageError,
      set_store s t ((tenants s t)
         \<lparr>items_entries := filter (\<lambda>r. \<not> (jsget r ''reference_id'' = Num i
                                \<and> jsget r ''reference_type'' = Str ''SaleEstimate''))
                             (items_entries (tenants s t))\<rparr>))"
  using assms by (simp add: deleteEstimate_def Let_def)

lemma partial_delete_observable:
  assumes o: "getSaleEstimateOrThrowError (tenants s t) i = Inr old"
    and "\<not> rejects DeleteEntries" and "rejects DeleteDocument"
  shows "fst (deleteEstimate rejects t i s) = Inl StorageError
     \<and> entries_by_reference (tenants (snd (deleteEstimate rejects t i s)) t) i ''SaleEstimate'' = []
     \<and> sale_estimates (tenants (snd (deleteEstimate rejects t i s)) t) = sale_estimates (tenants s t)
     \<and> map_sum id children (getEstimate t i (snd (deleteEstimate rejects t i s))) = Inr []"
proof -
  from getSaleEstimate_InrD[OF o] have f: "findById (sale_estimates (tenants s t)) i = Some old" .
  from findById_SomeD[OF f] have i: "jsget old ''id'' = Num i" by simp
  show ?thesis
    unfolding deleteEstimate_document_rejected[OF assms]
    by (simp add: set_store_def entries_by_reference_def getEstimate_def f fetch_graph_def
        is_entry_of_def i filter_empty_conv)
qed

text \<open>
  C5, as amended. \<^verbatim>\<open>deleteEstimate\<close> issues the entry deletion and then the document
  deletion as two storage writes with no transaction around them. For an existing
  document: if the entry deletion is rejected, nothing changes; if both writes go through,
  entries and document are gone; if the entry deletion goes through and the document
  deletion is rejected, the call fails while the entries stay deleted and the document row
  remains, and a later \<^verbatim>\<open>getEstimate\<close> returns the document with no entries.
\<close>

theorem C5_delete_is_two_separate_writes:
  "getSaleEstimateOrThrowError (tenants s t) i = Inr old \<longrightarrow>
     (rejects DeleteEntries \<longrightarrow> deleteEstimate rejects t i s = (Inl StorageError, s))
   \<and> (\<not> rejects DeleteEntries \<and> rejects DeleteDocument \<longrightarrow>
        fst (deleteEstimate rejects t i s) = Inl StorageError
        \<and> entries_by_reference (tenants (snd (deleteEstimate rejects t i s)) t) i ''SaleEstimate'' = []
        \<and> sale_estimates (tenants (snd (deleteEstimate rejects t i s)) t) = sale_estimates (tenants s t)
        \<and> map_sum id children (getEstimate t i (snd (deleteEstimate rejects t i s))) = Inr [])
   \<and> (\<not> rejects DeleteEntries \<and> \<not> rejects DeleteDocument \<longrightarrow>
        fst (deleteEstimate rejects t i s) = Inr ()
        \<and> entries_by_reference (tenants (snd (deleteEstimate rejects t i s)) t) i ''SaleEstimate'' = []
        \<and> getEstimate t i (snd (deleteEstimate rejects t i s))
            = Inl (ServiceError SALE_ESTIMATE_NOT_FOUND []))"
proof (intro impI conjI)
  assume o: "getSaleEstimateOrThrowError (tenants s t) i = Inr old"
  { assume "rejects DeleteEntries"
    with o show "deleteEstimate rejects t i s = (Inl StorageError, s)"
      by (rule deleteEstimate_entries_rejected) }
  { assume a: "\<not> rejects DeleteEntries \<and> rejects DeleteDocument"
    from partial_delete_observable[OF o] a
    show "fst (deleteEstimate rejects t i s) = Inl StorageError"
      and "entries_by_reference (tenants (snd (deleteEstimate rejects t i s)) t) i ''SaleEstimate'' = []"
      and "sale_estimates (tenants (snd (deleteEstimate rejects t i s)) t) = sale_estimates (tenants s t)"
      and "map_sum id children (getEstimate t i (snd (deleteEstimate rejects t i s))) = Inr []"
      by simp_all }
  { assume a: "\<not> rejects DeleteEntries \<and> \<not> rejects DeleteDocument"
    from a have d: "deleteEstimate rejects t i s =
     (Inr (),
      dispatch (Event OnDeleted (Some (DeletedPayload t i old)))
        (set_store s t ((tenants s t)
           \<lparr>items_entries := filter (\<lambda>r. \<not> (jsget r ''reference_id'' = Num i
                                  \<and> jsget r ''reference_type'' = Str ''SaleEstimate''))
                               (items_entries (tenants s t)),
            sale_estimates := filter (\<lambda>r. jsget r ''id'' \<noteq> Num i) (sale_estimates (tenants s t))\<rparr>)))"
      by (simp add: deleteEstimate_ok[OF o])
    show "fst (deleteEstimate rejects t i s) = Inr ()"
      and "entries_by_reference (tenants (snd (deleteEstimate rejects t i s)) t) i ''SaleEstimate'' = []"
      and "getEstimate t i (snd (deleteEstimate rejects t i s))
            = Inl (ServiceError SALE_ESTIMATE_NOT_FOUND [])"
      unfolding d
      by (simp_all add: getEstimate_def entries_by_reference_def findById_filter_out filter_empty_conv) }
qed

text \<open>
  C5 as stated fails: with the document delete rejected, estimate 1 of tenant 1 loses its
  one entry and keeps its row, and \<^verbatim>\<open>getEstimate\<close> shows it without entries, where it
  showed one entry before.
\<close>

theorem C5_partial_delete_counterexample:
  "length (entries_by_reference (tenants ex_state1 1) 1 ''SaleEstimate'') = 1
   \<and> fst (deleteEstimate ex_document_delete_rejected 1 1 ex_state1) = Inl StorageError
   \<and> entries_by_reference
        (tenants (snd (deleteEstimate ex_document_delete_rejected 1 1 ex_state1)) 1) 1 ''SaleEstimate'' = []
   \<and> map_sum id children
        (getEstimate 1 1 (snd (deleteEstimate ex_document_delete_rejected 1 1 ex_state1))) = Inr []
   \<and> map_sum id children (getEstimate 1 1 ex_state1) \<noteq> Inr []"
  by (simp add: deleteEstimate_def getEstimate_def entries_by_reference_def fetch_graph_def
      ex_document_delete_rejected_def validator_simps write_simps ex_simps obj_simps Let_def)

text \<open>The theorem at work on estimate 1 of tenant 1, for the three storage behaviours.\<close>

theorem C5_delete_witness:
  "deleteEstimate (\<lambda>w. True) 1 1 ex_state1 = (Inl StorageError, ex_state1)
   \<and> fst (deleteEstimate ex_document_delete_rejected 1 1 ex_state1) = Inl StorageError
   \<and> map_sum id children
        (getEstimate 1 1 (snd (deleteEstimate ex_document_delete_rejected 1 1 ex_state1))) = Inr []
   \<and> getEstimate 1 1 (snd (deleteEstimate ex_no_rejection 1 1 ex_state1))
        = Inl (ServiceError SALE_ESTIMATE_NOT_FOUND [])"
proof -
  obtain old where o: "getSaleEstimateOrThrowError (tenants ex_state1 1) 1 = Inr old"
    by (simp add: validator_simps ex_simps obj_simps)
  have r: "\<not> ex_document_delete_rejected DeleteEntries \<and> ex_document_delete_rejected DeleteDocument"
    by (simp add: ex_document_delete_rejected_def)
  have n: "\<not> ex_no_rejection DeleteEntries \<and> \<not> ex_no_rejection DeleteDocument"
    by (simp add: ex_no_rejection_def)
  from C5_delete_is_two_separate_writes[where s = ex_state1 and t = 1 and i = 1 and old = old and rejects = "\<lambda>w. True"] o
  have 1: "deleteEstimate (\<lambda>w. True) 1 1 ex_state1 = (Inl StorageError, ex_state1)"
    by blast
  from C5_delete_is_two_separate_writes[where s = ex_state1 and t = 1 and i = 1 and old = old
      and rejects = ex_document_delete_rejected] o r
  have 2: "fst (deleteEstimate ex_document_delete_rejected 1 1 ex_state1) = Inl StorageError
   \<and> map_sum id children
        (getEstimate 1 1 (snd (deleteEstimate ex_document_delete_rejected 1 1 ex_state1))) = Inr []"
    by blast
  from C5_delete_is_two_separate_writes[where s = ex_state1 and t = 1 and i = 1 and old = old
      and rejects = ex_no_rejection] o n
  have 3: "getEstimate 1 1 (snd (deleteEstimate ex_no_rejection 1 1 ex_state1))
        = Inl (ServiceError SALE_ESTIMATE_NOT_FOUND [])"
    by blast
  from 1 2 3 show ?thesis by blast
qed

section \<open>What is written for each entry\<close>

text \<open>
  The entries that a successful \<^verbatim>\<open>createEstimate\<close> persists (\<open>create_entries_persisted\<close>):
  one row per entry of the request, each without the client's \<^verbatim>\<open>total\<close> and \<^verbatim>\<open>amount\<close>,
  under an id taken from the storage's sequence instead of the client's, and with the
  reference type \<^verbatim>\<open>SaleEstimate\<close> where the request's entry carries no reference type of
  its own.
\<close>

lemma upsert_fresh_children:
  assumes "\<forall>e \<in> set es. e ''id'' = None"
  shows "\<exists>rows. upsert_children did cur n es = Some (rows, n + int (length es))
           \<and> length rows = length es
           \<and> (\<forall>k < length es. rows ! k = (es ! k)(''id'' \<mapsto> Num (n + int k), ''reference_id'' \<mapsto> did))"
  using assms
proof (induction es arbitrary: n)
  case Nil
  then show ?case by simp
next
  case (Cons e es)
  then obtain rows where r: "upsert_children did cur (n + 1) es = Some (rows, n + 1 + int (length es))"
    and l: "length rows = length es"
    and k: "\<forall>k < length es. rows ! k = (es ! k)(''id'' \<mapsto> Num (n + 1 + int k), ''reference_id'' \<mapsto> did)"
    by (metis list.set_intros(2))
  from Cons.prems have u: "jsget e ''id'' = Undefined" by (simp add: jsget_def)
  define rows' where "rows' = e(''id'' \<mapsto> Num n, ''reference_id'' \<mapsto> did) # rows"
  have 1: "upsert_children did cur n (e # es) = Some (rows', n + int (length (e # es)))"
    using r u by (simp add: rows'_def add.assoc)
  have 2: "length rows' = length (e # es)"
    using l by (simp add: rows'_def)
  have 3: "\<forall>j < length (e # es). rows' ! j
          = ((e # es) ! j)(''id'' \<mapsto> Num (n + int j), ''reference_id'' \<mapsto> did)"
  proof (intro allI impI)
    fix j assume "j < length (e # es)"
    then show "rows' ! j = ((e # es) ! j)(''id'' \<mapsto> Num (n + int j), ''reference_id'' \<mapsto> did)"
      using k by (cases j) (simp_all add: rows'_def add.assoc)
  qed
  from 1 2 3 show ?case by blast
qed

lemma upsert_children_written:
  assumes "upsertGraphAndFetch st g = Inr (doc, st')" and "\<forall>e \<in> set (children g). e ''id'' = None"
  shows "length (children doc) = length (children g)
       \<and> set (children doc) \<subseteq> set (items_entries st')
       \<and> (\<forall>k < length (children g).
            \<exists>did. children doc ! k
               = (children g ! k)(''id'' \<mapsto> Num (next_entry_id st + int k), ''reference_id'' \<mapsto> did))"
proof -
  from assms(1) obtain did cur rows m where
    u: "upsert_children did cur (next_entry_id st) (children g) = Some (rows, m)"
    and c: "children doc = rows" and i: "set rows \<subseteq> set (items_entries st')"
    by (auto simp: upsertGraphAndFetch_def Let_def split: if_splits option.splits)
  from upsert_fresh_children[OF assms(2), of did cur "next_entry_id st"] u
  have "length rows = length (children g)"
    and "\<forall>k < length (children g). rows ! k
        = (children g ! k)(''id'' \<mapsto> Num (next_entry_id st + int k), ''reference_id'' \<mapsto> did)"
    by auto
  with c i show ?thesis by auto
qed

lemma create_graph_child:
  assumes "k < length (entries dto)"
  shows "children (create_graph (estimateObj D dto)) ! k
       = spread [''reference_type'' \<mapsto> Str ''SaleEstimate'']
           (omit (entries dto ! k) [''total'', ''amount'', ''id''])"
  using assms by (simp add: create_graph_def estimateObj_def)

lemma create_entries_persisted:
  assumes c: "createEstimate D t dto s = (Inr doc, s')"
  shows "length (children doc) = length (entries dto)
     \<and> set (children doc) \<subseteq> set (items_entries (tenants s' t))
     \<and> (\<forall>k < length (entries dto).
          (children doc ! k) ''total'' = None
          \<and> (children doc ! k) ''amount'' = None
          \<and> (children doc ! k) ''id'' = Some (Num (next_entry_id (tenants s t) + int k))
          \<and> ((entries dto ! k) ''reference_type'' = None \<longrightarrow>
               (children doc ! k) ''reference_type'' = Some (Str ''SaleEstimate'')))"
proof -
  let ?g = "create_graph (estimateObj D dto)"
  from createEstimate_InrD[OF c] obtain st' where
    u: "upsertGraphAndFetch (tenants s t) ?g = Inr (doc, st')"
    and s': "s' = dispatch (Event OnCreated None) (set_store s t st')" by blast
  have len: "length (children ?g) = length (entries dto)"
    by (simp add: create_graph_def estimateObj_def)
  have noid: "\<forall>e \<in> set (children ?g). e ''id'' = None"
    by (auto simp: create_graph_def spread_apply omit_def)
  from upsert_children_written[OF u noid] len
  have l: "length (children doc) = length (entries dto)"
    and i: "set (children doc) \<subseteq> set (items_entries st')"
    and k: "\<forall>k < length (entries dto).
            \<exists>did. children doc ! k
               = (children ?g ! k)(''id'' \<mapsto> Num (next_entry_id (tenants s t) + int k), ''reference_id'' \<mapsto> did)"
    by simp_all
  have "(children doc ! k) ''total'' = None
          \<and> (children doc ! k) ''amount'' = None
          \<and> (children doc ! k) ''id'' = Some (Num (next_entry_id (tenants s t) + int k))
          \<and> ((entries dto ! k) ''reference_type'' = None \<longrightarrow>
               (children doc ! k) ''reference_type'' = Some (Str ''SaleEstimate''))"
    if "k < length (entries dto)" for k
  proof -
    from k that obtain did where "children doc ! k
        = (children ?g ! k)(''id'' \<mapsto> Num (next_entry_id (tenants s t) + int k), ''reference_id'' \<mapsto> did)"
      by blast
    then show ?thesis
      by (simp add: create_graph_child[OF that] spread_apply omit_def)
  qed
  with l i show ?thesis by (simp add: s')
qed

text \<open>
  C6, evaluated. The service writes the stamp first and spreads the entry over it:
  \<^verbatim>\<open>{ reference_type: 'SaleEstimate', ...omit(entry, [...]) }\<close>. An entry that carries
  \<^verbatim>\<open>reference_type: 'Bill'\<close> is therefore returned and stored with the type Bill, by
  \<^verbatim>\<open>createEstimate\<close> and by \<^verbatim>\<open>editEstimate\<close> alike, and is not among the entries of the
  estimate it was written for. The same request without it is stored under SaleEstimate.
\<close>

theorem C6_client_reference_type_replaces_stamp:
  "map (\<lambda>r. (jsget r ''reference_id'', jsget r ''reference_type''))
     (items_entries (tenants (snd (createEstimate ex_deps 1 ex_dto_bill ex_state)) 1))
     = [(Num 1, Str ''Bill'')]
   \<and> map_sum id (\<lambda>doc. map (\<lambda>r. jsget r ''reference_type'') (children doc))
        (fst (createEstimate ex_deps 1 ex_dto_bill ex_state)) = Inr [Str ''Bill'']
   \<and> entries_by_reference (tenants (snd (createEstimate ex_deps 1 ex_dto_bill ex_state)) 1) 1
        ''SaleEstimate'' = []
   \<and> map (\<lambda>r. (jsget r ''reference_id'', jsget r ''reference_type''))
        (items_entries (tenants (snd (editEstimate ex_deps 1 1 ex_dto_bill ex_state1)) 1))
     = [(Num 1, Str ''Bill'')]
   \<and> map (\<lambda>r. (jsget r ''reference_id'', jsget r ''reference_type''))
        (items_entries (tenants (snd (createEstimate ex_deps 1 ex_dto ex_state)) 1))
     = [(Num 1, Str ''SaleEstimate'')]"
  by (simp add: createEstimate_def editEstimate_def entries_by_reference_def validator_simps
      write_simps ex_simps obj_simps Let_def)

section \<open>Validation of the entry ids on edit\<close>

text \<open>
  C7, evaluated. Estimate 1 of tenant 1 owns entry 1 under the pair (1, SaleEstimate). An
  edit of estimate 1 whose entry carries the id 1 is rejected with the entries-not-found
  error for that id, because \<^verbatim>\<open>editEstimate\<close> passes the reference type \<^verbatim>\<open>'SaleEstiamte'\<close> to
  the validator; with the reference type \<^verbatim>\<open>'SaleEstimate'\<close> the same validator accepts the
  request.
\<close>

theorem C7_edit_validates_against_misspelt_type:
  "map (\<lambda>r. jsget r ''id'') (entries_by_reference (tenants ex_state1 1) 1 ''SaleEstimate'') = [Num 1]
   \<and> map (\<lambda>e. jsget e ''id'') (entries ex_dto_own_entry) = [Num 1]
   \<and> fst (editEstimate ex_deps 1 1 ex_dto_own_entry ex_state1)
        = Inl (ServiceError ENTRIES_IDS_NOT_FOUND [Num 1])
   \<and> validateEntriesIdsExistance (tenants ex_state1 1) 1 ''SaleEstimate'' (entries ex_dto_own_entry)
        = Inr ()"
  by (simp add: editEstimate_def entries_by_reference_def validator_simps ex_simps obj_simps Let_def)

section \<open>Lifecycle events\<close>

text \<open>
  What \<^verbatim>\<open>createEstimate\<close> dispatches, for every input: nothing when it fails, and after a
  successful write the event \<^verbatim>\<open>onCreated\<close> with no payload.
\<close>

lemma createEstimate_dispatched:
  "dispatched (snd (createEstimate D t dto s)) =
     (case fst (createEstimate D t dto s) of
        Inl e \<Rightarrow> dispatched s
      | Inr saleEstimate \<Rightarrow> dispatched s @ [Event OnCreated None])"
  by (auto simp: createEstimate_def Let_def dispatch_def set_store_def split: sum.splits)

text \<open>
  C8, evaluated. Creating E-1 in an empty tenant dispatches \<^verbatim>\<open>onCreated\<close> after the write,
  with no payload: neither the tenant id nor the document reaches the subscribers. A
  rejected create dispatches nothing. The events of \<^verbatim>\<open>editEstimate\<close> and
  \<^verbatim>\<open>deleteEstimate\<close> do carry a payload.
\<close>

theorem C8_created_event_has_no_payload:
  "dispatched (snd (createEstimate ex_deps 1 ex_dto ex_state)) = [Event OnCreated None]
   \<and> dispatched (snd (createEstimate ex_deps 1 ex_dto_missing ex_state)) = []
   \<and> map (\<lambda>ev. case ev of Event n p \<Rightarrow> (n, p = None))
        (dispatched (snd (editEstimate ex_deps 1 1 ex_dto ex_state1))) = [(OnEdited, False)]
   \<and> map (\<lambda>ev. case ev of Event n p \<Rightarrow> (n, p = None))
        (dispatched (snd (deleteEstimate ex_no_rejection 1 1 ex_state1))) = [(OnDeleted, False)]"
  by (simp add: createEstimate_def editEstimate_def deleteEstimate_def ex_no_rejection_def
      validator_simps write_simps ex_simps obj_simps Let_def)

section \<open>Listing estimates\<close>

lemma estimatesList_page:
  assumes "1 \<le> page f" and "0 \<le> pageSize f"
  shows "estimatesList dl t f s =
     Inr \<lparr>salesEstimates =
            map (fetch_graph (tenants s t))
              (take (nat (pageSize f))
                 (drop (nat ((page f - 1) * pageSize f))
                    (buildQuery (dl f) (sale_estimates (tenants s t))))),
          pagination_of =
            \<lparr>meta_total = int (length (buildQuery (dl f) (sale_estimates (tenants s t)))),
             meta_page = page f, meta_pageSize = pageSize f\<rparr>,
          filterMeta = getResponseMeta (dl f)\<rparr>"
  using assms by (simp add: estimatesList_def pagination_def Let_def)

lemma two_pages:
  assumes n: "0 \<le> pageSize f" and p1: "page f = 1"
    and st: "buildQuery (dl (f\<lparr>page := 2\<rparr>)) = buildQuery (dl f)"
  shows "\<exists>p1 p2. estimatesList dl t f s = Inr p1
           \<and> estimatesList dl t (f\<lparr>page := 2\<rparr>) s = Inr p2
           \<and> length (salesEstimates p1) \<le> nat (pageSize f)
           \<and> meta_page (pagination_of p1) = 1
           \<and> salesEstimates p1 @ salesEstimates p2 =
               map (fetch_graph (tenants s t))
                 (take (2 * nat (pageSize f)) (buildQuery (dl f) (sale_estimates (tenants s t))))"
proof -
  let ?rows = "buildQuery (dl f) (sale_estimates (tenants s t))"
  let ?n = "nat (pageSize f)"
  have a: "estimatesList dl t f s =
     Inr \<lparr>salesEstimates = map (fetch_graph (tenants s t)) (take ?n ?rows),
          pagination_of = \<lparr>meta_total = int (length ?rows), meta_page = 1, meta_pageSize = pageSize f\<rparr>,
          filterMeta = getResponseMeta (dl f)\<rparr>"
    using estimatesList_page[of f dl t s] n p1 by simp
  have "nat ((page (f\<lparr>page := 2\<rparr>) - 1) * pageSize (f\<lparr>page := 2\<rparr>)) = ?n" by simp
  then have b: "estimatesList dl t (f\<lparr>page := 2\<rparr>) s =
     Inr \<lparr>salesEstimates = map (fetch_graph (tenants s t)) (take ?n (drop ?n ?rows)),
          pagination_of = \<lparr>meta_total = int (length ?rows), meta_page = 2, meta_pageSize = pageSize f\<rparr>,
          filterMeta = getResponseMeta (dl (f\<lparr>page := 2\<rparr>))\<rparr>"
    using estimatesList_page[of "f\<lparr>page := 2\<rparr>" dl t s] n st by simp
  have "take ?n ?rows @ take ?n (drop ?n ?rows) = take (2 * ?n) ?rows"
    using take_add[of ?n ?n ?rows] by (simp add: mult_2)
  then have "map (fetch_graph (tenants s t)) (take ?n ?rows)
               @ map (fetch_graph (tenants s t)) (take ?n (drop ?n ?rows))
             = map (fetch_graph (tenants s t)) (take (2 * ?n) ?rows)"
    by (metis map_append)
  with a b show ?thesis by simp
qed

text \<open>
  C9. \<^verbatim>\<open>estimatesList\<close> hands the filtered query to the pagination with \<^verbatim>\<open>page - 1\<close> and
  the unchanged page size, and returns the result page with the pagination and filter
  metadata. For a page of at least 1 and a page size of at least 0 the results are the
  slice of the ordered rows that starts at \<^verbatim>\<open>(page - 1) * pageSize\<close> and has at most
  \<^verbatim>\<open>pageSize\<close> rows, and the metadata shows the 1-based page. With the same ordering for
  both requests, page 1 has at most \<^verbatim>\<open>pageSize\<close> results and page 1 followed by page 2 is
  the first \<^verbatim>\<open>2 * pageSize\<close> rows of the ordering: no overlap and no gap.
\<close>

theorem C9_list_pages_are_consecutive_slices:
  "estimatesList dl t f s =
     map_sum id
       (\<lambda>(results, pg). \<lparr>salesEstimates = map (fetch_graph (tenants s t)) results,
                          pagination_of = pg, filterMeta = getResponseMeta (dl f)\<rparr>)
       (pagination (buildQuery (dl f) (sale_estimates (tenants s t))) (page f - 1) (pageSize f))
   \<and> (1 \<le> page f \<and> 0 \<le> pageSize f \<longrightarrow>
      estimatesList dl t f s =
        Inr \<lparr>salesEstimates =
               map (fetch_graph (tenants s t))
                 (take (nat (pageSize f))
                    (drop (nat ((page f - 1) * pageSize f))
                       (buildQuery (dl f) (sale_estimates (tenants s t))))),
             pagination_of =
               \<lparr>meta_total = int (length (buildQuery (dl f) (sale_estimates (tenants s t)))),
                meta_page = page f, meta_pageSize = pageSize f\<rparr>,
             filterMeta = getResponseMeta (dl f)\<rparr>)
   \<and> (0 \<le> pageSize f \<and> page f = 1 \<and> buildQuery (dl (f\<lparr>page := 2\<rparr>)) = buildQuery (dl f) \<longrightarrow>
        (\<exists>p1 p2. estimatesList dl t f s = Inr p1
           \<and> estimatesList dl t (f\<lparr>page := 2\<rparr>) s = Inr p2
           \<and> length (salesEstimates p1) \<le> nat (pageSize f)
           \<and> meta_page (pagination_of p1) = 1
           \<and> salesEstimates p1 @ salesEstimates p2 =
               map (fetch_graph (tenants s t))
                 (take (2 * nat (pageSize f)) (buildQuery (dl f) (sale_estimates (tenants s t))))))"
proof -
  have "estimatesList dl t f s =
     map_sum id
       (\<lambda>(results, pg). \<lparr>salesEstimates = map (fetch_graph (tenants s t)) results,
                          pagination_of = pg, filterMeta = getResponseMeta (dl f)\<rparr>)
       (pagination (buildQuery (dl f) (sale_estimates (tenants s t))) (page f - 1) (pageSize f))"
    by (simp add: estimatesList_def Let_def split: sum.splits)
  with estimatesList_page[of f dl t s] two_pages[of f dl t s] show ?thesis by blast
qed


text \<open>The theorem at work: three estimates in pages of two.\<close>

theorem C9_list_witness:
  "\<exists>p1 p2. estimatesList ex_dynamicList 1 ex_filter ex_state3 = Inr p1
      \<and> estimatesList ex_dynamicList 1 (ex_filter\<lparr>page := 2\<rparr>) ex_state3 = Inr p2
      \<and> length (salesEstimates p1) \<le> 2
      \<and> meta_page (pagination_of p1) = 1
      \<and> map props (salesEstimates p1 @ salesEstimates p2) = sale_estimates (tenants ex_state3 1)"
proof -
  have h: "0 \<le> pageSize ex_filter \<and> page ex_filter = 1
      \<and> buildQuery (ex_dynamicList (ex_filter\<lparr>page := 2\<rparr>)) = buildQuery (ex_dynamicList ex_filter)"
    by (simp add: ex_filter_def ex_dynamicList_def)
  have r: "take (2 * nat (pageSize ex_filter))
             (buildQuery (ex_dynamicList ex_filter) (sale_estimates (tenants ex_state3 1)))
           = sale_estimates (tenants ex_state3 1)"
    by (simp add: ex_filter_def ex_dynamicList_def ex_state3_def)
  have m: "map props (map (fetch_graph st) xs) = xs" for st xs
    by (simp add: fetch_graph_def comp_def)
  from C9_list_pages_are_consecutive_slices[where f = ex_filter and dl = ex_dynamicList and t = 1 and s = ex_state3] h
  obtain p1 p2 where a: "estimatesList ex_dynamicList 1 ex_filter ex_state3 = Inr p1"
    and b: "estimatesList ex_dynamicList 1 (ex_filter\<lparr>page := 2\<rparr>) ex_state3 = Inr p2"
    and c: "length (salesEstimates p1) \<le> nat (pageSize ex_filter)"
    and d: "meta_page (pagination_of p1) = 1"
    and e: "salesEstimates p1 @ salesEstimates p2 =
           map (fetch_graph (tenants ex_state3 1))
             (take (2 * nat (pageSize ex_filter))
                (buildQuery (ex_dynamicList ex_filter) (sale_estimates (tenants ex_state3 1))))"
    by blast
  from c have c': "length (salesEstimates p1) \<le> 2"
    by (simp add: ex_filter_def)
  from e have e': "map props (salesEstimates p1 @ salesEstimates p2) = sale_estimates (tenants ex_state3 1)"
    unfolding r by (simp only: m)
  from a b c' d e' show ?thesis by blast
qed

section \<open>Deleting a bill from the client's store\<close>

text \<open>
  C10, evaluated. When the request fails without a response, or with a response that has
  no data, the handler throws while reading the error list: nothing is dispatched, and the
  returned promise is neither resolved nor rejected. With a response whose data carries no
  errors the promise is rejected with the empty list, and a successful request dispatches
  \<^verbatim>\<open>BILL_DELETE\<close> and resolves.
\<close>

theorem C10_deleteBill_without_response_never_settles:
  "deleteBill 5 (Rejected \<lparr>response = None\<rparr>) = ([], Pending)
   \<and> deleteBill 5 (Rejected \<lparr>response = Some \<lparr>data = None\<rparr>\<rparr>) = ([], Pending)
   \<and> deleteBill 5 (Rejected \<lparr>response = Some \<lparr>data = Some \<lparr>errors = None\<rparr>\<rparr>\<rparr>)
        = ([], RejectedWith [])
   \<and> deleteBill 5 (Fulfilled \<lparr>data = None\<rparr>) = ([BILL_DELETE 5], Resolved \<lparr>data = None\<rparr>)"
  by (simp add: deleteBill_def)

end
